theory Spec2Isabelle
  imports Complex_Main
begin

text \<open>
  A model of the Trello MCP server: the API client of \<open>trello_client.py\<close> with its
  request primitive and its resource methods, the tool facade of \<open>server.py\<close> with its
  uniform error capture, and the board and list views. Requests, the local files and the
  events handed to the invocation context are kept in an explicit world, so that what a
  method sends is a value one can state properties of.
\<close>

section \<open>Python values\<close>

text \<open>
  The values that travel through the program: decoded JSON bodies, query-parameter
  values and the dictionaries the facade returns. A Python \<open>dict\<close> is an association
  list in insertion order; a finite float is carried by its exact value.
\<close>

datatype pyval =
    VNone
  | VBool bool
  | VInt int
  | VFloat rat
  | VStr string
  | VList "pyval list"
  | VDict "(string \<times> pyval) list"

type_synonym dict = "(string \<times> pyval) list"

text \<open>The exceptions the program raises or meets, each with the text \<open>str(e)\<close> gives.\<close>

datatype exn =
    Exception string
  | ValueError string
  | FileNotFoundError string
  | OSError string
  | AttributeError string
  | TypeError string
  | JSONDecodeError string

fun exn_str :: "exn \<Rightarrow> string" where
  "exn_str (Exception m) = m"
| "exn_str (ValueError m) = m"
| "exn_str (FileNotFoundError m) = m"
| "exn_str (OSError m) = m"
| "exn_str (AttributeError m) = m"
| "exn_str (TypeError m) = m"
| "exn_str (JSONDecodeError m) = m"

text \<open>\<open>isinstance(e, FileNotFoundError)\<close>, for the one handler that asks.\<close>

fun is_FileNotFoundError :: "exn \<Rightarrow> bool" where
  "is_FileNotFoundError (FileNotFoundError m) = True"
| "is_FileNotFoundError e = False"

subsection \<open>Decimal rendering of integers\<close>

definition digit_char :: "nat \<Rightarrow> char" where
  "digit_char d =
     (if d = 0 then CHR ''0'' else if d = 1 then CHR ''1'' else if d = 2 then CHR ''2''
      else if d = 3 then CHR ''3'' else if d = 4 then CHR ''4'' else if d = 5 then CHR ''5''
      else if d = 6 then CHR ''6'' else if d = 7 then CHR ''7'' else if d = 8 then CHR ''8''
      else CHR ''9'')"

fun str_nat :: "nat \<Rightarrow> string" where
  "str_nat n = (if n < 10 then [digit_char n] else str_nat (n div 10) @ [digit_char (n mod 10)])"

declare str_nat.simps [simp del]

definition str_int :: "int \<Rightarrow> string" where
  "str_int i = (if i < 0 then CHR ''-'' # str_nat (nat (- i)) else str_nat (nat i))"

subsection \<open>Dictionaries\<close>

text \<open>\<open>d[k] = v\<close>: an existing key keeps its place, a new key goes last.\<close>

fun dict_set :: "string \<Rightarrow> pyval \<Rightarrow> dict \<Rightarrow> dict" where
  "dict_set k v [] = [(k, v)]"
| "dict_set k v ((k', v') # d) = (if k' = k then (k, v) # d else (k', v') # dict_set k v d)"

text \<open>\<open>{**a, **b}\<close>: the entries of \<open>b\<close> are stored into \<open>a\<close> one after the other.\<close>

fun dict_merge :: "dict \<Rightarrow> dict \<Rightarrow> dict" where
  "dict_merge a [] = a"
| "dict_merge a ((k, v) # b) = dict_merge (dict_set k v a) b"

definition dict_keys :: "dict \<Rightarrow> string list" where
  "dict_keys d = map fst d"

subsection \<open>Built-in operations on values\<close>

fun type_name :: "pyval \<Rightarrow> string" where
  "type_name VNone = ''NoneType''"
| "type_name (VBool b) = ''bool''"
| "type_name (VInt i) = ''int''"
| "type_name (VFloat f) = ''float''"
| "type_name (VStr s) = ''str''"
| "type_name (VList xs) = ''list''"
| "type_name (VDict d) = ''dict''"

text \<open>\<open>bool(v)\<close>, the test behind \<open>if v:\<close> and \<open>a or b\<close>.\<close>

fun py_truthy :: "pyval \<Rightarrow> bool" where
  "py_truthy VNone = False"
| "py_truthy (VBool b) = b"
| "py_truthy (VInt i) = (i \<noteq> 0)"
| "py_truthy (VFloat f) = (f \<noteq> 0)"
| "py_truthy (VStr s) = (s \<noteq> [])"
| "py_truthy (VList xs) = (xs \<noteq> [])"
| "py_truthy (VDict d) = (d \<noteq> [])"

text \<open>\<open>v.get(k, default)\<close>: only a dict has the method.\<close>

fun py_get :: "pyval \<Rightarrow> string \<Rightarrow> pyval \<Rightarrow> exn + pyval" where
  "py_get (VDict d) k dflt = Inr (case map_of d k of None \<Rightarrow> dflt | Some v \<Rightarrow> v)"
| "py_get v k dflt =
     Inl (AttributeError ([CHR 0x27] @ type_name v @ [CHR 0x27] @ '' object has no attribute ''
            @ [CHR 0x27] @ ''get'' @ [CHR 0x27]))"

text \<open>\<open>len(v)\<close>: lists, dicts and strings are sized.\<close>

fun py_len :: "pyval \<Rightarrow> exn + nat" where
  "py_len (VList xs) = Inr (length xs)"
| "py_len (VDict d) = Inr (length d)"
| "py_len (VStr s) = Inr (length s)"
| "py_len v =
     Inl (TypeError (''object of type '' @ [CHR 0x27] @ type_name v @ [CHR 0x27] @ '' has no len()''))"

text \<open>\<open>for x in v\<close>: a list gives its elements, a dict its keys, a string its characters.\<close>

fun py_iter :: "pyval \<Rightarrow> exn + pyval list" where
  "py_iter (VList xs) = Inr xs"
| "py_iter (VDict d) = Inr (map (\<lambda>kv. VStr (fst kv)) d)"
| "py_iter (VStr s) = Inr (map (\<lambda>c. VStr [c]) s)"
| "py_iter v =
     Inl (TypeError ([CHR 0x27] @ type_name v @ [CHR 0x27] @ '' object is not iterable''))"

text \<open>
  \<open>str(v)\<close>, as an f-string applies it. The text of a float or of a container is Python's
  \<open>repr\<close>, which no property here depends on: it is the parameter \<open>rp\<close>.
\<close>

fun py_str :: "(pyval \<Rightarrow> string) \<Rightarrow> pyval \<Rightarrow> string" where
  "py_str rp (VStr s) = s"
| "py_str rp VNone = ''None''"
| "py_str rp (VBool b) = (if b then ''True'' else ''False'')"
| "py_str rp (VInt i) = str_int i"
| "py_str rp v = rp v"

text \<open>\<open>sep.join(xs)\<close>.\<close>

fun py_join :: "string \<Rightarrow> string list \<Rightarrow> string" where
  "py_join sep [] = []"
| "py_join sep [x] = x"
| "py_join sep (x # y # ys) = x @ sep @ py_join sep (y # ys)"

text \<open>\<open>os.path.basename\<close> (POSIX): what follows the last slash.\<close>

definition basename :: "string \<Rightarrow> string" where
  "basename p = rev (takeWhile (\<lambda>c. c \<noteq> CHR ''/'') (rev p))"

section \<open>The world outside the process\<close>

text \<open>
  One call of the HTTP connection: \<open>client.request(method, url, params=, json=)\<close>,
  \<open>client.post(url, params=, files=)\<close> or \<open>client.get(url, params=)\<close>. A file part is
  the form field, the file name and the bytes.
\<close>

record http_request =
  req_method :: string
  req_url :: string
  req_params :: dict
  req_json :: "pyval option"
  req_files :: "(string \<times> string \<times> string) list"

text \<open>
  A response: its status, its raw body, and what \<open>response.json()\<close> makes of the body
  (the decoder's error text when the body is not JSON).
\<close>

record http_response =
  status_code :: int
  content :: string
  decoded :: "string + pyval"

text \<open>The connection either answers or raises \<open>httpx.RequestError\<close> with a cause text.\<close>

datatype http_outcome = Responded http_response | RequestError string

record client =
  api_key :: string
  api_token :: string

datatype event = Info string | Error string

text \<open>
  Everything the program reads or changes outside its own variables: the remote service
  (its answer may depend on every request made before), the requests made so far, the
  local files, the two environment variables, the process-wide client of the facade, and
  the events given to the invocation context.
\<close>

record world =
  net :: "http_request list \<Rightarrow> http_request \<Rightarrow> http_outcome"
  sent :: "http_request list"
  files :: "string \<Rightarrow> string option"
  read_fault :: "string \<Rightarrow> string option"
  write_fault :: "string \<Rightarrow> string option"
  env_key :: "string option"
  env_token :: "string option"
  trello_client :: "client option"
  events :: "event list"

text \<open>A computation that may raise and may change the world.\<close>

type_synonym 'a prog = "world \<Rightarrow> (exn + 'a) \<times> world"

definition returnM :: "'a \<Rightarrow> 'a prog" where
  "returnM x = (\<lambda>w. (Inr x, w))"

definition liftE :: "exn + 'a \<Rightarrow> 'a prog" where
  "liftE r = (\<lambda>w. (r, w))"

definition bindM :: "'a prog \<Rightarrow> ('a \<Rightarrow> 'b prog) \<Rightarrow> 'b prog" where
  "bindM m f = (\<lambda>w. case m w of (Inl e, w') \<Rightarrow> (Inl e, w') | (Inr x, w') \<Rightarrow> f x w')"

text \<open>The requests a computation makes when it is run from \<open>w\<close>.\<close>

definition issued :: "'a prog \<Rightarrow> world \<Rightarrow> http_request list" where
  "issued m w = drop (length (sent w)) (sent (snd (m w)))"

section \<open>The API client (trello\_client.py)\<close>

definition BASE_URL :: string where
  "BASE_URL = ''https://api.trello.com/1''"

text \<open>\<open>a or b\<close> on optional strings: the first operand when it is a non-empty string.\<close>

definition or_else :: "string option \<Rightarrow> string option \<Rightarrow> string option" where
  "or_else a b = (case a of None \<Rightarrow> b | Some s \<Rightarrow> if s = [] then b else Some s)"

text \<open>\<open>TrelloClient.__init__\<close>.\<close>

definition TrelloClient_init :: "string option \<Rightarrow> string option \<Rightarrow> client prog" where
  "TrelloClient_init key token = (\<lambda>w.
     (case (or_else key (env_key w), or_else token (env_token w)) of
        (Some k, Some t) \<Rightarrow>
          if k = [] \<or> t = [] then
            (Inl (ValueError (''Trello API credentials not found. Please set TRELLO_API_KEY and ''
                    @ ''TRELLO_API_TOKEN environment variables.'')), w)
          else (Inr \<lparr>api_key = k, api_token = t\<rparr>, w)
      | _ \<Rightarrow>
          (Inl (ValueError (''Trello API credentials not found. Please set TRELLO_API_KEY and ''
                  @ ''TRELLO_API_TOKEN environment variables.'')), w)))"

text \<open>\<open>TrelloClient._add_auth\<close>.\<close>

definition add_auth :: "client \<Rightarrow> dict option \<Rightarrow> dict" where
  "add_auth self params =
     (let auth_params = [(''key'', VStr (api_key self)), (''token'', VStr (api_token self))] in
      case params of
        None \<Rightarrow> auth_params
      | Some p \<Rightarrow> if p \<noteq> [] then dict_merge p auth_params else auth_params)"

text \<open>\<open>response.raise_for_status()\<close> of httpx lets exactly the 2xx statuses pass.\<close>

definition is_success :: "http_response \<Rightarrow> bool" where
  "is_success r = (200 \<le> status_code r \<and> status_code r \<le> 299)"

text \<open>Handing one request to the connection: it is recorded, and the service answers.\<close>

definition transmit :: "http_request \<Rightarrow> world \<Rightarrow> http_outcome \<times> world" where
  "transmit req w = (net w (sent w) req, w\<lparr>sent := sent w @ [req]\<rparr>)"

text \<open>\<open>TrelloClient._request\<close>.\<close>

definition request :: "client \<Rightarrow> string \<Rightarrow> string \<Rightarrow> dict option \<Rightarrow> pyval option \<Rightarrow> pyval prog" where
  "request self method endpoint params json = (\<lambda>w.
     (let url = BASE_URL @ endpoint;
          params' = add_auth self params
      in case transmit \<lparr>req_method = method, req_url = url, req_params = params',
                         req_json = json, req_files = []\<rparr> w of
           (Responded response, w') \<Rightarrow>
             if is_success response then
               (case decoded response of
                  Inl m \<Rightarrow> (Inl (JSONDecodeError m), w')
                | Inr v \<Rightarrow> (Inr v, w'))
             else if status_code response = 401 then
               (Inl (Exception ''Invalid Trello API credentials''), w')
             else if status_code response = 404 then
               (Inl (Exception (''Resource not found: '' @ endpoint)), w')
             else if status_code response = 429 then
               (Inl (Exception (''Trello API rate limit exceeded. Consider using webhooks for ''
                       @ ''frequent updates.'')), w')
             else
               (Inl (Exception (''Trello API error: '' @ str_int (status_code response))), w')
         | (RequestError m, w') \<Rightarrow> (Inl (Exception (''Network error: '' @ m)), w')))"

subsection \<open>Shaping of optional inputs\<close>

text \<open>
  The two guards the client methods put before \<open>params[k] = v\<close>: \<open>if v:\<close> (the input
  is a non-empty string) and \<open>if v is not None:\<close>.
\<close>

definition set_if_truthy :: "string \<Rightarrow> string option \<Rightarrow> dict \<Rightarrow> dict" where
  "set_if_truthy k v params =
     (case v of None \<Rightarrow> params | Some s \<Rightarrow> if s \<noteq> [] then dict_set k (VStr s) params else params)"

definition set_if_not_None :: "string \<Rightarrow> pyval option \<Rightarrow> dict \<Rightarrow> dict" where
  "set_if_not_None k v params = (case v of None \<Rightarrow> params | Some x \<Rightarrow> dict_set k x params)"

text \<open>\<open>str(b).lower()\<close>.\<close>

definition str_lower_bool :: "bool \<Rightarrow> string" where
  "str_lower_bool b = (if b then ''true'' else ''false'')"

subsection \<open>Boards, lists and cards\<close>

definition client_list_boards :: "client \<Rightarrow> pyval prog" where
  "client_list_boards self = request self ''GET'' ''/members/me/boards'' None None"

definition client_get_board :: "client \<Rightarrow> string \<Rightarrow> pyval prog" where
  "client_get_board self board_id = request self ''GET'' (''/boards/'' @ board_id) None None"

definition client_create_board :: "client \<Rightarrow> string \<Rightarrow> string option \<Rightarrow> pyval prog" where
  "client_create_board self name desc =
     (let params = [(''name'', VStr name)];
          params = set_if_truthy ''desc'' desc params
      in request self ''POST'' ''/boards/'' (Some params) None)"

definition client_get_board_lists :: "client \<Rightarrow> string \<Rightarrow> pyval prog" where
  "client_get_board_lists self board_id =
     request self ''GET'' (''/boards/'' @ board_id @ ''/lists'') None None"

definition client_create_list :: "client \<Rightarrow> string \<Rightarrow> string \<Rightarrow> string option \<Rightarrow> pyval prog" where
  "client_create_list self board_id name pos =
     (let params = [(''name'', VStr name)];
          params = set_if_truthy ''pos'' pos params
      in request self ''POST'' (''/boards/'' @ board_id @ ''/lists'') (Some params) None)"

definition client_archive_list :: "client \<Rightarrow> string \<Rightarrow> pyval prog" where
  "client_archive_list self list_id =
     request self ''PUT'' (''/lists/'' @ list_id @ ''/closed'') (Some [(''value'', VStr ''true'')]) None"

definition client_list_cards :: "client \<Rightarrow> string \<Rightarrow> pyval prog" where
  "client_list_cards self list_id = request self ''GET'' (''/lists/'' @ list_id @ ''/cards'') None None"

definition client_get_card :: "client \<Rightarrow> string \<Rightarrow> pyval prog" where
  "client_get_card self card_id = request self ''GET'' (''/cards/'' @ card_id) None None"

definition client_create_card ::
  "client \<Rightarrow> string \<Rightarrow> string \<Rightarrow> string option \<Rightarrow> string option \<Rightarrow> string option \<Rightarrow> pyval prog" where
  "client_create_card self list_id name desc pos due =
     (let params = [(''idList'', VStr list_id), (''name'', VStr name)];
          params = set_if_truthy ''desc'' desc params;
          params = set_if_truthy ''pos'' pos params;
          params = set_if_truthy ''due'' due params
      in request self ''POST'' ''/cards'' (Some params) None)"

definition client_update_card ::
  "client \<Rightarrow> string \<Rightarrow> string option \<Rightarrow> string option \<Rightarrow> string option \<Rightarrow> string option
     \<Rightarrow> bool option \<Rightarrow> pyval prog" where
  "client_update_card self card_id name desc list_id due due_complete =
     (let params = [];
          params = set_if_truthy ''name'' name params;
          params = set_if_truthy ''desc'' desc params;
          params = set_if_truthy ''idList'' list_id params;
          params = set_if_not_None ''due'' (map_option VStr due) params;
          params = set_if_not_None ''dueComplete'' (map_option VBool due_complete) params
      in request self ''PUT'' (''/cards/'' @ card_id) (Some params) None)"

definition client_delete_card :: "client \<Rightarrow> string \<Rightarrow> pyval prog" where
  "client_delete_card self card_id = request self ''DELETE'' (''/cards/'' @ card_id) None None"

definition client_move_card :: "client \<Rightarrow> string \<Rightarrow> string \<Rightarrow> string option \<Rightarrow> pyval prog" where
  "client_move_card self card_id list_id pos =
     (let params = [(''idList'', VStr list_id)];
          params = set_if_truthy ''pos'' pos params
      in request self ''PUT'' (''/cards/'' @ card_id) (Some params) None)"

subsection \<open>Due dates\<close>

definition client_set_card_due_date :: "client \<Rightarrow> string \<Rightarrow> string \<Rightarrow> pyval prog" where
  "client_set_card_due_date self card_id due_date =
     (let params = [(''due'', VStr due_date)]
      in request self ''PUT'' (''/cards/'' @ card_id) (Some params) None)"

definition client_mark_due_date_complete :: "client \<Rightarrow> string \<Rightarrow> bool \<Rightarrow> pyval prog" where
  "client_mark_due_date_complete self card_id completed =
     (let params = [(''dueComplete'', VBool completed)]
      in request self ''PUT'' (''/cards/'' @ card_id) (Some params) None)"

definition client_clear_card_due_date :: "client \<Rightarrow> string \<Rightarrow> pyval prog" where
  "client_clear_card_due_date self card_id =
     (let params = [(''due'', VNone)]
      in request self ''PUT'' (''/cards/'' @ card_id) (Some params) None)"

subsection \<open>Checklists and their items\<close>

definition client_get_card_checklists :: "client \<Rightarrow> string \<Rightarrow> pyval prog" where
  "client_get_card_checklists self card_id =
     request self ''GET'' (''/cards/'' @ card_id @ ''/checklists'') None None"

definition client_create_checklist :: "client \<Rightarrow> string \<Rightarrow> string \<Rightarrow> string option \<Rightarrow> pyval prog" where
  "client_create_checklist self card_id name pos =
     (let params = [(''idCard'', VStr card_id)];
          params = set_if_truthy ''name'' (Some name) params;
          params = set_if_truthy ''pos'' pos params
      in request self ''POST'' ''/checklists'' (Some params) None)"

definition client_get_checklist :: "client \<Rightarrow> string \<Rightarrow> pyval prog" where
  "client_get_checklist self checklist_id =
     request self ''GET'' (''/checklists/'' @ checklist_id) None None"

definition client_update_checklist ::
  "client \<Rightarrow> string \<Rightarrow> string option \<Rightarrow> string option \<Rightarrow> pyval prog" where
  "client_update_checklist self checklist_id name pos =
     (let params = [];
          params = set_if_truthy ''name'' name params;
          params = set_if_truthy ''pos'' pos params
      in request self ''PUT'' (''/checklists/'' @ checklist_id) (Some params) None)"

definition client_delete_checklist :: "client \<Rightarrow> string \<Rightarrow> pyval prog" where
  "client_delete_checklist self checklist_id =
     request self ''DELETE'' (''/checklists/'' @ checklist_id) None None"

definition client_get_checklist_items :: "client \<Rightarrow> string \<Rightarrow> pyval prog" where
  "client_get_checklist_items self checklist_id =
     request self ''GET'' (''/checklists/'' @ checklist_id @ ''/checkItems'') None None"

definition client_add_checklist_item ::
  "client \<Rightarrow> string \<Rightarrow> string \<Rightarrow> bool option \<Rightarrow> string option \<Rightarrow> pyval prog" where
  "client_add_checklist_item self checklist_id name checked pos =
     (let params = [(''name'', VStr name)];
          params = set_if_not_None ''checked'' (map_option (\<lambda>b. VStr (str_lower_bool b)) checked) params;
          params = set_if_truthy ''pos'' pos params
      in request self ''POST'' (''/checklists/'' @ checklist_id @ ''/checkItems'') (Some params) None)"

definition client_update_checklist_item ::
  "client \<Rightarrow> string \<Rightarrow> string \<Rightarrow> string option \<Rightarrow> string option \<Rightarrow> string option \<Rightarrow> pyval prog" where
  "client_update_checklist_item self card_id checklist_item_id name state pos =
     (let params = [];
          params = set_if_truthy ''name'' name params;
          params = set_if_truthy ''state'' state params;
          params = set_if_truthy ''pos'' pos params
      in request self ''PUT'' (''/cards/'' @ card_id @ ''/checkItem/'' @ checklist_item_id)
           (Some params) None)"

definition client_delete_checklist_item :: "client \<Rightarrow> string \<Rightarrow> string \<Rightarrow> pyval prog" where
  "client_delete_checklist_item self checklist_id checklist_item_id =
     request self ''DELETE'' (''/checklists/'' @ checklist_id @ ''/checkItems/'' @ checklist_item_id)
       None None"

subsection \<open>Labels\<close>

definition client_get_board_labels :: "client \<Rightarrow> string \<Rightarrow> pyval prog" where
  "client_get_board_labels self board_id =
     request self ''GET'' (''/boards/'' @ board_id @ ''/labels'') None None"

definition client_create_label :: "client \<Rightarrow> string \<Rightarrow> string \<Rightarrow> string option \<Rightarrow> pyval prog" where
  "client_create_label self board_id name color =
     (let params = [(''idBoard'', VStr board_id), (''name'', VStr name)];
          params = set_if_not_None ''color'' (map_option VStr color) params
      in request self ''POST'' ''/labels'' (Some params) None)"

definition client_get_label :: "client \<Rightarrow> string \<Rightarrow> pyval prog" where
  "client_get_label self label_id = request self ''GET'' (''/labels/'' @ label_id) None None"

definition client_update_label ::
  "client \<Rightarrow> string \<Rightarrow> string option \<Rightarrow> string option \<Rightarrow> pyval prog" where
  "client_update_label self label_id name color =
     (let params = [];
          params = set_if_not_None ''name'' (map_option VStr name) params;
          params = set_if_not_None ''color'' (map_option VStr color) params
      in request self ''PUT'' (''/labels/'' @ label_id) (Some params) None)"

definition client_delete_label :: "client \<Rightarrow> string \<Rightarrow> pyval prog" where
  "client_delete_label self label_id = request self ''DELETE'' (''/labels/'' @ label_id) None None"

definition client_get_card_labels :: "client \<Rightarrow> string \<Rightarrow> pyval prog" where
  "client_get_card_labels self card_id =
     request self ''GET'' (''/cards/'' @ card_id @ ''/labels'') None None"

definition client_add_label_to_card :: "client \<Rightarrow> string \<Rightarrow> string \<Rightarrow> pyval prog" where
  "client_add_label_to_card self card_id label_id =
     (let params = [(''value'', VStr label_id)]
      in request self ''POST'' (''/cards/'' @ card_id @ ''/idLabels'') (Some params) None)"

definition client_remove_label_from_card :: "client \<Rightarrow> string \<Rightarrow> string \<Rightarrow> pyval prog" where
  "client_remove_label_from_card self card_id label_id =
     request self ''DELETE'' (''/cards/'' @ card_id @ ''/idLabels/'' @ label_id) None None"

definition client_set_card_labels :: "client \<Rightarrow> string \<Rightarrow> string list \<Rightarrow> pyval prog" where
  "client_set_card_labels self card_id label_ids =
     (let params = [(''idLabels'', VStr (py_join '','' label_ids))]
      in request self ''PUT'' (''/cards/'' @ card_id) (Some params) None)"

subsection \<open>Attachments\<close>

definition client_get_card_attachments :: "client \<Rightarrow> string \<Rightarrow> pyval prog" where
  "client_get_card_attachments self card_id =
     request self ''GET'' (''/cards/'' @ card_id @ ''/attachments'') None None"

definition client_get_attachment :: "client \<Rightarrow> string \<Rightarrow> string \<Rightarrow> pyval prog" where
  "client_get_attachment self card_id attachment_id =
     request self ''GET'' (''/cards/'' @ card_id @ ''/attachments/'' @ attachment_id) None None"

definition client_add_attachment_url :: "client \<Rightarrow> string \<Rightarrow> string \<Rightarrow> string option \<Rightarrow> pyval prog" where
  "client_add_attachment_url self card_id url name =
     (let params = [(''url'', VStr url)];
          params = set_if_truthy ''name'' name params
      in request self ''POST'' (''/cards/'' @ card_id @ ''/attachments'') (Some params) None)"

text \<open>
  \<open>TrelloClient.add_attachment_file\<close>. The file is looked for first; opening it for
  reading may still fail (\<open>read_fault\<close>), which the method does not catch.
\<close>

definition client_add_attachment_file ::
  "client \<Rightarrow> string \<Rightarrow> string \<Rightarrow> string option \<Rightarrow> pyval prog" where
  "client_add_attachment_file self card_id file_path name = (\<lambda>w.
     (case files w file_path of
        None \<Rightarrow> (Inl (FileNotFoundError (''File not found: '' @ file_path)), w)
      | Some data \<Rightarrow>
          (let url = BASE_URL @ ''/cards/'' @ card_id @ ''/attachments'';
               params = add_auth self None;
               attachment_name =
                 (case name of
                    None \<Rightarrow> basename file_path
                  | Some n \<Rightarrow> if n \<noteq> [] then n else basename file_path)
           in case read_fault w file_path of
                Some m \<Rightarrow> (Inl (OSError m), w)
              | None \<Rightarrow>
                  (case transmit \<lparr>req_method = ''POST'', req_url = url, req_params = params,
                                   req_json = None,
                                   req_files = [(''file'', attachment_name, data)]\<rparr> w of
                     (Responded response, w') \<Rightarrow>
                       if is_success response then
                         (case decoded response of
                            Inl m \<Rightarrow> (Inl (JSONDecodeError m), w')
                          | Inr v \<Rightarrow> (Inr v, w'))
                       else if status_code response = 401 then
                         (Inl (Exception ''Invalid Trello API credentials''), w')
                       else if status_code response = 404 then
                         (Inl (Exception (''Card not found: '' @ card_id)), w')
                       else if status_code response = 429 then
                         (Inl (Exception ''Trello API rate limit exceeded''), w')
                       else
                         (Inl (Exception (''Trello API error: '' @ str_int (status_code response))), w')
                   | (RequestError m, w') \<Rightarrow> (Inl (Exception (''Network error: '' @ m)), w')))))"

text \<open>\<open>attachment.get("fileName") or attachment.get("name") or "download"\<close>.\<close>

definition resolve_filename :: "pyval \<Rightarrow> exn + pyval" where
  "resolve_filename attachment =
     (case py_get attachment ''fileName'' VNone of
        Inl e \<Rightarrow> Inl e
      | Inr a \<Rightarrow>
          if py_truthy a then Inr a
          else (case py_get attachment ''name'' VNone of
                  Inl e \<Rightarrow> Inl e
                | Inr b \<Rightarrow> if py_truthy b then Inr b else Inr (VStr ''download'')))"

text \<open>
  \<open>TrelloClient.download_attachment\<close>, from the download URL on: the \<open>try\<close> block
  and its handlers. Opening the output file may fail (\<open>write_fault\<close>); otherwise the body
  replaces whatever the path held.
\<close>

definition download_to_file ::
  "(pyval \<Rightarrow> string) \<Rightarrow> client \<Rightarrow> string \<Rightarrow> string \<Rightarrow> string \<Rightarrow> pyval \<Rightarrow> pyval prog" where
  "download_to_file rp self card_id attachment_id output_path filename = (\<lambda>w.
     (let download_url = BASE_URL @ ''/cards/'' @ card_id @ ''/attachments/'' @ attachment_id
                           @ ''/download/'' @ py_str rp filename;
          params = add_auth self None
      in case transmit \<lparr>req_method = ''GET'', req_url = download_url, req_params = params,
                         req_json = None, req_files = []\<rparr> w of
           (Responded response, w') \<Rightarrow>
             if is_success response then
               (case write_fault w' output_path of
                  Some m \<Rightarrow> (Inl (Exception (''Failed to write file: '' @ m)), w')
                | None \<Rightarrow>
                    (Inr (VDict [(''success'', VBool True),
                                 (''path'', VStr output_path),
                                 (''size'', VInt (int (length (content response)))),
                                 (''name'', filename),
                                 (''attachment_id'', VStr attachment_id)]),
                     w'\<lparr>files := (files w')(output_path := Some (content response))\<rparr>))
             else if status_code response = 401 then
               (Inl (Exception ''Invalid Trello API credentials''), w')
             else if status_code response = 404 then
               (Inl (Exception (''Attachment not found: '' @ attachment_id)), w')
             else if status_code response = 429 then
               (Inl (Exception ''Trello API rate limit exceeded''), w')
             else
               (Inl (Exception (''Failed to download attachment: ''
                       @ str_int (status_code response))), w')
         | (RequestError m, w') \<Rightarrow>
             (Inl (Exception (''Network error during download: '' @ m)), w')))"

text \<open>
  \<open>TrelloClient.download_attachment\<close>: the metadata first, then the file name, then the
  download.
\<close>

definition client_download_attachment ::
  "(pyval \<Rightarrow> string) \<Rightarrow> client \<Rightarrow> string \<Rightarrow> string \<Rightarrow> string \<Rightarrow> pyval prog" where
  "client_download_attachment rp self card_id attachment_id output_path =
     bindM (client_get_attachment self card_id attachment_id) (\<lambda>attachment.
     bindM (liftE (resolve_filename attachment)) (\<lambda>filename.
     download_to_file rp self card_id attachment_id output_path filename))"

definition client_delete_attachment :: "client \<Rightarrow> string \<Rightarrow> string \<Rightarrow> pyval prog" where
  "client_delete_attachment self card_id attachment_id =
     request self ''DELETE'' (''/cards/'' @ card_id @ ''/attachments/'' @ attachment_id) None None"

section \<open>The tool facade (server.py)\<close>

definition squote :: string where
  "squote = [CHR 0x27]"

text \<open>\<open>get_client\<close>: the process-wide client, built from the environment on first use.\<close>

definition get_client :: "client prog" where
  "get_client = (\<lambda>w.
     (case trello_client w of
        Some c \<Rightarrow> (Inr c, w)
      | None \<Rightarrow>
          (case TrelloClient_init None None w of
             (Inl e, w') \<Rightarrow> (Inl e, w')
           | (Inr c, w') \<Rightarrow> (Inr c, w'\<lparr>trello_client := Some c\<rparr>))))"

definition context_info :: "string \<Rightarrow> unit prog" where
  "context_info msg = (\<lambda>w. (Inr (), w\<lparr>events := events w @ [Info msg]\<rparr>))"

text \<open>\<open>try: body / except Exception as e: handler\<close>: every exception of the body is caught.\<close>

definition guarded :: "'a prog \<Rightarrow> (exn \<Rightarrow> world \<Rightarrow> 'a \<times> world) \<Rightarrow> world \<Rightarrow> 'a \<times> world" where
  "guarded body handler = (\<lambda>w.
     (case body w of
        (Inr v, w') \<Rightarrow> (v, w')
      | (Inl e, w') \<Rightarrow> handler e w'))"

text \<open>A handler's two lines: \<open>context.error(msg)\<close>, then \<open>return payload\<close>.\<close>

definition fail_with :: "string \<Rightarrow> pyval \<Rightarrow> world \<Rightarrow> pyval \<times> world" where
  "fail_with msg payload = (\<lambda>w. (payload, w\<lparr>events := events w @ [Error msg]\<rparr>))"

subsection \<open>Board, list and card tools\<close>

definition list_boards :: "world \<Rightarrow> pyval \<times> world" where
  "list_boards = guarded
     (bindM get_client (\<lambda>client.
      bindM (client_list_boards client) (\<lambda>boards.
      bindM (liftE (py_len boards)) (\<lambda>n.
      bindM (context_info (''Retrieved '' @ str_nat n @ '' boards'')) (\<lambda>_.
      returnM boards)))))
     (\<lambda>e. fail_with (''Failed to list boards: '' @ exn_str e)
        (VList [VDict [(''error'', VStr (exn_str e))]]))"

definition get_board :: "(pyval \<Rightarrow> string) \<Rightarrow> string \<Rightarrow> world \<Rightarrow> pyval \<times> world" where
  "get_board rp board_id = guarded
     (bindM get_client (\<lambda>client.
      bindM (client_get_board client board_id) (\<lambda>board.
      bindM (liftE (py_get board ''name'' (VStr board_id))) (\<lambda>shown.
      bindM (context_info (''Retrieved board: '' @ py_str rp shown)) (\<lambda>_.
      returnM board)))))
     (\<lambda>e. fail_with (''Failed to get board '' @ board_id @ '': '' @ exn_str e)
        (VDict [(''error'', VStr (exn_str e)), (''board_id'', VStr board_id)]))"

definition create_board :: "string \<Rightarrow> string option \<Rightarrow> world \<Rightarrow> pyval \<times> world" where
  "create_board name desc = guarded
     (bindM get_client (\<lambda>client.
      bindM (client_create_board client name desc) (\<lambda>board.
      bindM (context_info (''Created board: '' @ name)) (\<lambda>_.
      returnM board))))
     (\<lambda>e. fail_with (''Failed to create board '' @ squote @ name @ squote @ '': '' @ exn_str e)
        (VDict [(''error'', VStr (exn_str e)), (''name'', VStr name)]))"

definition get_board_lists :: "string \<Rightarrow> world \<Rightarrow> pyval \<times> world" where
  "get_board_lists board_id = guarded
     (bindM get_client (\<lambda>client.
      bindM (client_get_board_lists client board_id) (\<lambda>lists.
      bindM (liftE (py_len lists)) (\<lambda>n.
      bindM (context_info (''Retrieved '' @ str_nat n @ '' lists from board '' @ board_id)) (\<lambda>_.
      returnM lists)))))
     (\<lambda>e. fail_with (''Failed to get lists for board '' @ board_id @ '': '' @ exn_str e)
        (VList [VDict [(''error'', VStr (exn_str e)), (''board_id'', VStr board_id)]]))"

definition create_list :: "string \<Rightarrow> string \<Rightarrow> string option \<Rightarrow> world \<Rightarrow> pyval \<times> world" where
  "create_list board_id name pos = guarded
     (bindM get_client (\<lambda>client.
      bindM (client_create_list client board_id name pos) (\<lambda>list_obj.
      bindM (context_info (''Created list '' @ squote @ name @ squote @ '' on board '' @ board_id)) (\<lambda>_.
      returnM list_obj))))
     (\<lambda>e. fail_with (''Failed to create list '' @ squote @ name @ squote @ '' on board '' @ board_id
                       @ '': '' @ exn_str e)
        (VDict [(''error'', VStr (exn_str e)), (''board_id'', VStr board_id), (''name'', VStr name)]))"

definition archive_list :: "string \<Rightarrow> world \<Rightarrow> pyval \<times> world" where
  "archive_list list_id = guarded
     (bindM get_client (\<lambda>client.
      bindM (client_archive_list client list_id) (\<lambda>list_obj.
      bindM (context_info (''Archived list '' @ list_id)) (\<lambda>_.
      returnM list_obj))))
     (\<lambda>e. fail_with (''Failed to archive list '' @ list_id @ '': '' @ exn_str e)
        (VDict [(''error'', VStr (exn_str e)), (''list_id'', VStr list_id)]))"

definition list_cards :: "string \<Rightarrow> world \<Rightarrow> pyval \<times> world" where
  "list_cards list_id = guarded
     (bindM get_client (\<lambda>client.
      bindM (client_list_cards client list_id) (\<lambda>cards.
      bindM (liftE (py_len cards)) (\<lambda>n.
      bindM (context_info (''Retrieved '' @ str_nat n @ '' cards from list '' @ list_id)) (\<lambda>_.
      returnM cards)))))
     (\<lambda>e. fail_with (''Failed to get cards for list '' @ list_id @ '': '' @ exn_str e)
        (VList [VDict [(''error'', VStr (exn_str e)), (''list_id'', VStr list_id)]]))"

definition get_card :: "(pyval \<Rightarrow> string) \<Rightarrow> string \<Rightarrow> world \<Rightarrow> pyval \<times> world" where
  "get_card rp card_id = guarded
     (bindM get_client (\<lambda>client.
      bindM (client_get_card client card_id) (\<lambda>card.
      bindM (liftE (py_get card ''name'' (VStr card_id))) (\<lambda>shown.
      bindM (context_info (''Retrieved card: '' @ py_str rp shown)) (\<lambda>_.
      returnM card)))))
     (\<lambda>e. fail_with (''Failed to get card '' @ card_id @ '': '' @ exn_str e)
        (VDict [(''error'', VStr (exn_str e)), (''card_id'', VStr card_id)]))"

definition create_card ::
  "string \<Rightarrow> string \<Rightarrow> string option \<Rightarrow> string option \<Rightarrow> string option \<Rightarrow> world \<Rightarrow> pyval \<times> world" where
  "create_card list_id name desc pos due = guarded
     (bindM get_client (\<lambda>client.
      bindM (client_create_card client list_id name desc pos due) (\<lambda>card.
      bindM (context_info (''Created card '' @ squote @ name @ squote @ '' in list '' @ list_id)) (\<lambda>_.
      returnM card))))
     (\<lambda>e. fail_with (''Failed to create card '' @ squote @ name @ squote @ '' in list '' @ list_id
                       @ '': '' @ exn_str e)
        (VDict [(''error'', VStr (exn_str e)), (''list_id'', VStr list_id), (''name'', VStr name)]))"

definition update_card ::
  "string \<Rightarrow> string option \<Rightarrow> string option \<Rightarrow> string option \<Rightarrow> string option \<Rightarrow> bool option
     \<Rightarrow> world \<Rightarrow> pyval \<times> world" where
  "update_card card_id name desc list_id due due_complete = guarded
     (bindM get_client (\<lambda>client.
      bindM (client_update_card client card_id name desc list_id due due_complete) (\<lambda>card.
      bindM (context_info (''Updated card '' @ card_id)) (\<lambda>_.
      returnM card))))
     (\<lambda>e. fail_with (''Failed to update card '' @ card_id @ '': '' @ exn_str e)
        (VDict [(''error'', VStr (exn_str e)), (''card_id'', VStr card_id)]))"

definition delete_card :: "string \<Rightarrow> world \<Rightarrow> pyval \<times> world" where
  "delete_card card_id = guarded
     (bindM get_client (\<lambda>client.
      bindM (client_delete_card client card_id) (\<lambda>result.
      bindM (context_info (''Deleted card '' @ card_id)) (\<lambda>_.
      returnM (VDict [(''success'', VBool True), (''card_id'', VStr card_id), (''result'', result)])))))
     (\<lambda>e. fail_with (''Failed to delete card '' @ card_id @ '': '' @ exn_str e)
        (VDict [(''error'', VStr (exn_str e)), (''card_id'', VStr card_id)]))"

definition move_card :: "string \<Rightarrow> string \<Rightarrow> string option \<Rightarrow> world \<Rightarrow> pyval \<times> world" where
  "move_card card_id list_id pos = guarded
     (bindM get_client (\<lambda>client.
      bindM (client_move_card client card_id list_id pos) (\<lambda>card.
      bindM (context_info (''Moved card '' @ card_id @ '' to list '' @ list_id)) (\<lambda>_.
      returnM card))))
     (\<lambda>e. fail_with (''Failed to move card '' @ card_id @ '' to list '' @ list_id @ '': '' @ exn_str e)
        (VDict [(''error'', VStr (exn_str e)), (''card_id'', VStr card_id), (''list_id'', VStr list_id)]))"

subsection \<open>Checklist tools\<close>

definition get_card_checklists :: "string \<Rightarrow> world \<Rightarrow> pyval \<times> world" where
  "get_card_checklists card_id = guarded
     (bindM get_client (\<lambda>client.
      bindM (client_get_card_checklists client card_id) (\<lambda>checklists.
      bindM (liftE (py_len checklists)) (\<lambda>n.
      bindM (context_info (''Retrieved '' @ str_nat n @ '' checklists from card '' @ card_id)) (\<lambda>_.
      returnM checklists)))))
     (\<lambda>e. fail_with (''Failed to get checklists for card '' @ card_id @ '': '' @ exn_str e)
        (VList [VDict [(''error'', VStr (exn_str e)), (''card_id'', VStr card_id)]]))"

definition create_checklist :: "string \<Rightarrow> string \<Rightarrow> string option \<Rightarrow> world \<Rightarrow> pyval \<times> world" where
  "create_checklist card_id name pos = guarded
     (bindM get_client (\<lambda>client.
      bindM (client_create_checklist client card_id name pos) (\<lambda>checklist.
      bindM (context_info (''Created checklist '' @ squote @ name @ squote @ '' on card '' @ card_id)) (\<lambda>_.
      returnM checklist))))
     (\<lambda>e. fail_with (''Failed to create checklist '' @ squote @ name @ squote @ '' on card '' @ card_id
                       @ '': '' @ exn_str e)
        (VDict [(''error'', VStr (exn_str e)), (''card_id'', VStr card_id), (''name'', VStr name)]))"

definition get_checklist :: "(pyval \<Rightarrow> string) \<Rightarrow> string \<Rightarrow> world \<Rightarrow> pyval \<times> world" where
  "get_checklist rp checklist_id = guarded
     (bindM get_client (\<lambda>client.
      bindM (client_get_checklist client checklist_id) (\<lambda>checklist.
      bindM (liftE (py_get checklist ''name'' (VStr checklist_id))) (\<lambda>shown.
      bindM (context_info (''Retrieved checklist: '' @ py_str rp shown)) (\<lambda>_.
      returnM checklist)))))
     (\<lambda>e. fail_with (''Failed to get checklist '' @ checklist_id @ '': '' @ exn_str e)
        (VDict [(''error'', VStr (exn_str e)), (''checklist_id'', VStr checklist_id)]))"

definition update_checklist ::
  "string \<Rightarrow> string option \<Rightarrow> string option \<Rightarrow> world \<Rightarrow> pyval \<times> world" where
  "update_checklist checklist_id name pos = guarded
     (bindM get_client (\<lambda>client.
      bindM (client_update_checklist client checklist_id name pos) (\<lambda>checklist.
      bindM (context_info (''Updated checklist '' @ checklist_id)) (\<lambda>_.
      returnM checklist))))
     (\<lambda>e. fail_with (''Failed to update checklist '' @ checklist_id @ '': '' @ exn_str e)
        (VDict [(''error'', VStr (exn_str e)), (''checklist_id'', VStr checklist_id)]))"

definition delete_checklist :: "string \<Rightarrow> world \<Rightarrow> pyval \<times> world" where
  "delete_checklist checklist_id = guarded
     (bindM get_client (\<lambda>client.
      bindM (client_delete_checklist client checklist_id) (\<lambda>result.
      bindM (context_info (''Deleted checklist '' @ checklist_id)) (\<lambda>_.
      returnM result))))
     (\<lambda>e. fail_with (''Failed to delete checklist '' @ checklist_id @ '': '' @ exn_str e)
        (VDict [(''error'', VStr (exn_str e)), (''checklist_id'', VStr checklist_id)]))"

definition get_checklist_items :: "string \<Rightarrow> world \<Rightarrow> pyval \<times> world" where
  "get_checklist_items checklist_id = guarded
     (bindM get_client (\<lambda>client.
      bindM (client_get_checklist_items client checklist_id) (\<lambda>items.
      bindM (liftE (py_len items)) (\<lambda>n.
      bindM (context_info (''Retrieved '' @ str_nat n @ '' items from checklist '' @ checklist_id)) (\<lambda>_.
      returnM items)))))
     (\<lambda>e. fail_with (''Failed to get items for checklist '' @ checklist_id @ '': '' @ exn_str e)
        (VList [VDict [(''error'', VStr (exn_str e)), (''checklist_id'', VStr checklist_id)]]))"

definition add_checklist_item ::
  "string \<Rightarrow> string \<Rightarrow> bool option \<Rightarrow> string option \<Rightarrow> world \<Rightarrow> pyval \<times> world" where
  "add_checklist_item checklist_id name checked pos = guarded
     (bindM get_client (\<lambda>client.
      bindM (client_add_checklist_item client checklist_id name checked pos) (\<lambda>item.
      bindM (context_info (''Added item '' @ squote @ name @ squote @ '' to checklist '' @ checklist_id)) (\<lambda>_.
      returnM item))))
     (\<lambda>e. fail_with (''Failed to add item to checklist '' @ checklist_id @ '': '' @ exn_str e)
        (VDict [(''error'', VStr (exn_str e)), (''checklist_id'', VStr checklist_id),
                (''name'', VStr name)]))"

definition update_checklist_item ::
  "string \<Rightarrow> string \<Rightarrow> string option \<Rightarrow> string option \<Rightarrow> string option \<Rightarrow> world \<Rightarrow> pyval \<times> world" where
  "update_checklist_item card_id checklist_item_id name state pos = guarded
     (bindM get_client (\<lambda>client.
      bindM (client_update_checklist_item client card_id checklist_item_id name state pos) (\<lambda>item.
      bindM (context_info (''Updated checklist item '' @ checklist_item_id)) (\<lambda>_.
      returnM item))))
     (\<lambda>e. fail_with (''Failed to update checklist item '' @ checklist_item_id @ '': '' @ exn_str e)
        (VDict [(''error'', VStr (exn_str e)), (''card_id'', VStr card_id),
                (''checklist_item_id'', VStr checklist_item_id)]))"

definition delete_checklist_item :: "string \<Rightarrow> string \<Rightarrow> world \<Rightarrow> pyval \<times> world" where
  "delete_checklist_item checklist_id checklist_item_id = guarded
     (bindM get_client (\<lambda>client.
      bindM (client_delete_checklist_item client checklist_id checklist_item_id) (\<lambda>result.
      bindM (context_info (''Deleted checklist item '' @ checklist_item_id)) (\<lambda>_.
      returnM result))))
     (\<lambda>e. fail_with (''Failed to delete checklist item '' @ checklist_item_id @ '': '' @ exn_str e)
        (VDict [(''error'', VStr (exn_str e)), (''checklist_id'', VStr checklist_id),
                (''checklist_item_id'', VStr checklist_item_id)]))"

subsection \<open>Label tools\<close>

definition get_board_labels :: "string \<Rightarrow> world \<Rightarrow> pyval \<times> world" where
  "get_board_labels board_id = guarded
     (bindM get_client (\<lambda>client.
      bindM (client_get_board_labels client board_id) (\<lambda>labels.
      bindM (liftE (py_len labels)) (\<lambda>n.
      bindM (context_info (''Retrieved '' @ str_nat n @ '' labels from board '' @ board_id)) (\<lambda>_.
      returnM labels)))))
     (\<lambda>e. fail_with (''Failed to get labels for board '' @ board_id @ '': '' @ exn_str e)
        (VList [VDict [(''error'', VStr (exn_str e)), (''board_id'', VStr board_id)]]))"

definition create_label :: "string \<Rightarrow> string \<Rightarrow> string option \<Rightarrow> world \<Rightarrow> pyval \<times> world" where
  "create_label board_id name color = guarded
     (bindM get_client (\<lambda>client.
      bindM (client_create_label client board_id name color) (\<lambda>label.
      bindM (context_info (''Created label '' @ squote @ name @ squote @ '' on board '' @ board_id)) (\<lambda>_.
      returnM label))))
     (\<lambda>e. fail_with (''Failed to create label '' @ squote @ name @ squote @ '' on board '' @ board_id
                       @ '': '' @ exn_str e)
        (VDict [(''error'', VStr (exn_str e)), (''board_id'', VStr board_id), (''name'', VStr name)]))"

definition update_label :: "string \<Rightarrow> string option \<Rightarrow> string option \<Rightarrow> world \<Rightarrow> pyval \<times> world" where
  "update_label label_id name color = guarded
     (bindM get_client (\<lambda>client.
      bindM (client_update_label client label_id name color) (\<lambda>label.
      bindM (context_info (''Updated label '' @ label_id)) (\<lambda>_.
      returnM label))))
     (\<lambda>e. fail_with (''Failed to update label '' @ label_id @ '': '' @ exn_str e)
        (VDict [(''error'', VStr (exn_str e)), (''label_id'', VStr label_id)]))"

definition delete_label :: "string \<Rightarrow> world \<Rightarrow> pyval \<times> world" where
  "delete_label label_id = guarded
     (bindM get_client (\<lambda>client.
      bindM (client_delete_label client label_id) (\<lambda>result.
      bindM (context_info (''Deleted label '' @ label_id)) (\<lambda>_.
      returnM result))))
     (\<lambda>e. fail_with (''Failed to delete label '' @ label_id @ '': '' @ exn_str e)
        (VDict [(''error'', VStr (exn_str e)), (''label_id'', VStr label_id)]))"

definition get_card_labels :: "string \<Rightarrow> world \<Rightarrow> pyval \<times> world" where
  "get_card_labels card_id = guarded
     (bindM get_client (\<lambda>client.
      bindM (client_get_card_labels client card_id) (\<lambda>labels.
      bindM (liftE (py_len labels)) (\<lambda>n.
      bindM (context_info (''Retrieved '' @ str_nat n @ '' labels from card '' @ card_id)) (\<lambda>_.
      returnM labels)))))
     (\<lambda>e. fail_with (''Failed to get labels for card '' @ card_id @ '': '' @ exn_str e)
        (VList [VDict [(''error'', VStr (exn_str e)), (''card_id'', VStr card_id)]]))"

definition add_label_to_card :: "string \<Rightarrow> string \<Rightarrow> world \<Rightarrow> pyval \<times> world" where
  "add_label_to_card card_id label_id = guarded
     (bindM get_client (\<lambda>client.
      bindM (client_add_label_to_card client card_id label_id) (\<lambda>result.
      bindM (context_info (''Added label '' @ label_id @ '' to card '' @ card_id)) (\<lambda>_.
      returnM result))))
     (\<lambda>e. fail_with (''Failed to add label '' @ label_id @ '' to card '' @ card_id @ '': '' @ exn_str e)
        (VDict [(''error'', VStr (exn_str e)), (''card_id'', VStr card_id), (''label_id'', VStr label_id)]))"

definition remove_label_from_card :: "string \<Rightarrow> string \<Rightarrow> world \<Rightarrow> pyval \<times> world" where
  "remove_label_from_card card_id label_id = guarded
     (bindM get_client (\<lambda>client.
      bindM (client_remove_label_from_card client card_id label_id) (\<lambda>result.
      bindM (context_info (''Removed label '' @ label_id @ '' from card '' @ card_id)) (\<lambda>_.
      returnM result))))
     (\<lambda>e. fail_with (''Failed to remove label '' @ label_id @ '' from card '' @ card_id @ '': ''
                       @ exn_str e)
        (VDict [(''error'', VStr (exn_str e)), (''card_id'', VStr card_id), (''label_id'', VStr label_id)]))"

definition set_card_labels :: "string \<Rightarrow> string list \<Rightarrow> world \<Rightarrow> pyval \<times> world" where
  "set_card_labels card_id label_ids = guarded
     (bindM get_client (\<lambda>client.
      bindM (client_set_card_labels client card_id label_ids) (\<lambda>result.
      bindM (context_info (''Set '' @ str_nat (length label_ids) @ '' labels on card '' @ card_id)) (\<lambda>_.
      returnM result))))
     (\<lambda>e. fail_with (''Failed to set labels on card '' @ card_id @ '': '' @ exn_str e)
        (VDict [(''error'', VStr (exn_str e)), (''card_id'', VStr card_id),
                (''label_ids'', VList (map VStr label_ids))]))"

subsection \<open>Due-date tools\<close>

definition set_card_due_date :: "string \<Rightarrow> string \<Rightarrow> world \<Rightarrow> pyval \<times> world" where
  "set_card_due_date card_id due_date = guarded
     (bindM get_client (\<lambda>client.
      bindM (client_set_card_due_date client card_id due_date) (\<lambda>card.
      bindM (context_info (''Set due date on card '' @ card_id @ '' to '' @ due_date)) (\<lambda>_.
      returnM card))))
     (\<lambda>e. fail_with (''Failed to set due date on card '' @ card_id @ '': '' @ exn_str e)
        (VDict [(''error'', VStr (exn_str e)), (''card_id'', VStr card_id),
                (''due_date'', VStr due_date)]))"

definition mark_due_date_complete :: "string \<Rightarrow> bool \<Rightarrow> world \<Rightarrow> pyval \<times> world" where
  "mark_due_date_complete card_id completed = guarded
     (bindM get_client (\<lambda>client.
      bindM (client_mark_due_date_complete client card_id completed) (\<lambda>card.
      (let status = (if completed then ''complete'' else ''incomplete'') in
       bindM (context_info (''Marked due date on card '' @ card_id @ '' as '' @ status)) (\<lambda>_.
       returnM card)))))
     (\<lambda>e. fail_with (''Failed to mark due date on card '' @ card_id @ '': '' @ exn_str e)
        (VDict [(''error'', VStr (exn_str e)), (''card_id'', VStr card_id)]))"

definition clear_card_due_date :: "string \<Rightarrow> world \<Rightarrow> pyval \<times> world" where
  "clear_card_due_date card_id = guarded
     (bindM get_client (\<lambda>client.
      bindM (client_clear_card_due_date client card_id) (\<lambda>card.
      bindM (context_info (''Cleared due date on card '' @ card_id)) (\<lambda>_.
      returnM card))))
     (\<lambda>e. fail_with (''Failed to clear due date on card '' @ card_id @ '': '' @ exn_str e)
        (VDict [(''error'', VStr (exn_str e)), (''card_id'', VStr card_id)]))"

subsection \<open>Attachment tools\<close>

definition get_card_attachments :: "string \<Rightarrow> world \<Rightarrow> pyval \<times> world" where
  "get_card_attachments card_id = guarded
     (bindM get_client (\<lambda>client.
      bindM (client_get_card_attachments client card_id) (\<lambda>attachments.
      bindM (liftE (py_len attachments)) (\<lambda>n.
      bindM (context_info (''Retrieved '' @ str_nat n @ '' attachments from card '' @ card_id)) (\<lambda>_.
      returnM attachments)))))
     (\<lambda>e. fail_with (''Failed to get attachments for card '' @ card_id @ '': '' @ exn_str e)
        (VList [VDict [(''error'', VStr (exn_str e)), (''card_id'', VStr card_id)]]))"

definition get_attachment :: "(pyval \<Rightarrow> string) \<Rightarrow> string \<Rightarrow> string \<Rightarrow> world \<Rightarrow> pyval \<times> world" where
  "get_attachment rp card_id attachment_id = guarded
     (bindM get_client (\<lambda>client.
      bindM (client_get_attachment client card_id attachment_id) (\<lambda>attachment.
      bindM (liftE (py_get attachment ''name'' (VStr attachment_id))) (\<lambda>shown.
      bindM (context_info (''Retrieved attachment: '' @ py_str rp shown)) (\<lambda>_.
      returnM attachment)))))
     (\<lambda>e. fail_with (''Failed to get attachment '' @ attachment_id @ '': '' @ exn_str e)
        (VDict [(''error'', VStr (exn_str e)), (''card_id'', VStr card_id),
                (''attachment_id'', VStr attachment_id)]))"

definition add_attachment_url :: "string \<Rightarrow> string \<Rightarrow> string option \<Rightarrow> world \<Rightarrow> pyval \<times> world" where
  "add_attachment_url card_id url name = guarded
     (bindM get_client (\<lambda>client.
      bindM (client_add_attachment_url client card_id url name) (\<lambda>attachment.
      bindM (context_info (''Added URL attachment to card '' @ card_id)) (\<lambda>_.
      returnM attachment))))
     (\<lambda>e. fail_with (''Failed to add URL attachment to card '' @ card_id @ '': '' @ exn_str e)
        (VDict [(''error'', VStr (exn_str e)), (''card_id'', VStr card_id), (''url'', VStr url)]))"

text \<open>The one tool with two handlers: \<open>except FileNotFoundError\<close> comes first.\<close>

definition add_attachment_file :: "string \<Rightarrow> string \<Rightarrow> string option \<Rightarrow> world \<Rightarrow> pyval \<times> world" where
  "add_attachment_file card_id file_path name = guarded
     (bindM get_client (\<lambda>client.
      bindM (client_add_attachment_file client card_id file_path name) (\<lambda>attachment.
      bindM (context_info (''Uploaded file attachment to card '' @ card_id)) (\<lambda>_.
      returnM attachment))))
     (\<lambda>e. if is_FileNotFoundError e then
             fail_with (''File not found: '' @ file_path)
               (VDict [(''error'', VStr (exn_str e)), (''card_id'', VStr card_id),
                       (''file_path'', VStr file_path)])
           else
             fail_with (''Failed to upload attachment to card '' @ card_id @ '': '' @ exn_str e)
               (VDict [(''error'', VStr (exn_str e)), (''card_id'', VStr card_id),
                       (''file_path'', VStr file_path)]))"

definition download_attachment ::
  "(pyval \<Rightarrow> string) \<Rightarrow> string \<Rightarrow> string \<Rightarrow> string \<Rightarrow> world \<Rightarrow> pyval \<times> world" where
  "download_attachment rp card_id attachment_id output_path = guarded
     (bindM get_client (\<lambda>client.
      bindM (client_download_attachment rp client card_id attachment_id output_path) (\<lambda>result.
      bindM (context_info (''Downloaded attachment to '' @ output_path)) (\<lambda>_.
      returnM result))))
     (\<lambda>e. fail_with (''Failed to download attachment '' @ attachment_id @ '': '' @ exn_str e)
        (VDict [(''error'', VStr (exn_str e)), (''card_id'', VStr card_id),
                (''attachment_id'', VStr attachment_id), (''output_path'', VStr output_path)]))"

definition delete_attachment :: "string \<Rightarrow> string \<Rightarrow> world \<Rightarrow> pyval \<times> world" where
  "delete_attachment card_id attachment_id = guarded
     (bindM get_client (\<lambda>client.
      bindM (client_delete_attachment client card_id attachment_id) (\<lambda>result.
      bindM (context_info (''Deleted attachment '' @ attachment_id @ '' from card '' @ card_id)) (\<lambda>_.
      returnM (VDict [(''success'', VBool True), (''card_id'', VStr card_id),
                      (''attachment_id'', VStr attachment_id), (''result'', result)])))))
     (\<lambda>e. fail_with (''Failed to delete attachment '' @ attachment_id @ '': '' @ exn_str e)
        (VDict [(''error'', VStr (exn_str e)), (''card_id'', VStr card_id),
                (''attachment_id'', VStr attachment_id)]))"

section \<open>Invocations\<close>

text \<open>
  One invocation of a tool with its arguments. Each tool has the client method of the same
  name behind it, taking the same arguments.
\<close>

datatype board_call =
    ListBoards
  | GetBoard string
  | CreateBoard string "string option"
  | GetBoardLists string
  | CreateList string string "string option"
  | ArchiveList string

datatype card_call =
    ListCards string
  | GetCard string
  | CreateCard string string "string option" "string option" "string option"
  | UpdateCard string "string option" "string option" "string option" "string option" "bool option"
  | DeleteCard string
  | MoveCard string string "string option"

datatype checklist_call =
    GetCardChecklists string
  | CreateChecklist string string "string option"
  | GetChecklist string
  | UpdateChecklist string "string option" "string option"
  | DeleteChecklist string
  | GetChecklistItems string
  | AddChecklistItem string string "bool option" "string option"
  | UpdateChecklistItem string string "string option" "string option" "string option"
  | DeleteChecklistItem string string

datatype label_call =
    GetBoardLabels string
  | CreateLabel string string "string option"
  | UpdateLabel string "string option" "string option"
  | DeleteLabel string
  | GetCardLabels string
  | AddLabelToCard string string
  | RemoveLabelFromCard string string
  | SetCardLabels string "string list"

datatype due_call =
    SetCardDueDate string string
  | MarkDueDateComplete string bool
  | ClearCardDueDate string

datatype attachment_call =
    GetCardAttachments string
  | GetAttachment string string
  | AddAttachmentUrl string string "string option"
  | AddAttachmentFile string string "string option"
  | DownloadAttachment string string string
  | DeleteAttachment string string

datatype call =
    Board board_call
  | Card card_call
  | Checklist checklist_call
  | Label label_call
  | Due due_call
  | Attachment attachment_call

subsection \<open>Running the tool\<close>

fun board_tool :: "(pyval \<Rightarrow> string) \<Rightarrow> board_call \<Rightarrow> world \<Rightarrow> pyval \<times> world" where
  "board_tool rp ListBoards = list_boards"
| "board_tool rp (GetBoard board_id) = get_board rp board_id"
| "board_tool rp (CreateBoard name desc) = create_board name desc"
| "board_tool rp (GetBoardLists board_id) = get_board_lists board_id"
| "board_tool rp (CreateList board_id name pos) = create_list board_id name pos"
| "board_tool rp (ArchiveList list_id) = archive_list list_id"

fun card_tool :: "(pyval \<Rightarrow> string) \<Rightarrow> card_call \<Rightarrow> world \<Rightarrow> pyval \<times> world" where
  "card_tool rp (ListCards list_id) = list_cards list_id"
| "card_tool rp (GetCard card_id) = get_card rp card_id"
| "card_tool rp (CreateCard list_id name desc pos due) = create_card list_id name desc pos due"
| "card_tool rp (UpdateCard card_id name desc list_id due due_complete) =
     update_card card_id name desc list_id due due_complete"
| "card_tool rp (DeleteCard card_id) = delete_card card_id"
| "card_tool rp (MoveCard card_id list_id pos) = move_card card_id list_id pos"

fun checklist_tool :: "(pyval \<Rightarrow> string) \<Rightarrow> checklist_call \<Rightarrow> world \<Rightarrow> pyval \<times> world" where
  "checklist_tool rp (GetCardChecklists card_id) = get_card_checklists card_id"
| "checklist_tool rp (CreateChecklist card_id name pos) = create_checklist card_id name pos"
| "checklist_tool rp (GetChecklist checklist_id) = get_checklist rp checklist_id"
| "checklist_tool rp (UpdateChecklist checklist_id name pos) = update_checklist checklist_id name pos"
| "checklist_tool rp (DeleteChecklist checklist_id) = delete_checklist checklist_id"
| "checklist_tool rp (GetChecklistItems checklist_id) = get_checklist_items checklist_id"
| "checklist_tool rp (AddChecklistItem checklist_id name checked pos) =
     add_checklist_item checklist_id name checked pos"
| "checklist_tool rp (UpdateChecklistItem card_id checklist_item_id name state pos) =
     update_checklist_item card_id checklist_item_id name state pos"
| "checklist_tool rp (DeleteChecklistItem checklist_id checklist_item_id) =
     delete_checklist_item checklist_id checklist_item_id"

fun label_tool :: "(pyval \<Rightarrow> string) \<Rightarrow> label_call \<Rightarrow> world \<Rightarrow> pyval \<times> world" where
  "label_tool rp (GetBoardLabels board_id) = get_board_labels board_id"
| "label_tool rp (CreateLabel board_id name color) = create_label board_id name color"
| "label_tool rp (UpdateLabel label_id name color) = update_label label_id name color"
| "label_tool rp (DeleteLabel label_id) = delete_label label_id"
| "label_tool rp (GetCardLabels card_id) = get_card_labels card_id"
| "label_tool rp (AddLabelToCard card_id label_id) = add_label_to_card card_id label_id"
| "label_tool rp (RemoveLabelFromCard card_id label_id) = remove_label_from_card card_id label_id"
| "label_tool rp (SetCardLabels card_id label_ids) = set_card_labels card_id label_ids"

fun due_tool :: "(pyval \<Rightarrow> string) \<Rightarrow> due_call \<Rightarrow> world \<Rightarrow> pyval \<times> world" where
  "due_tool rp (SetCardDueDate card_id due_date) = set_card_due_date card_id due_date"
| "due_tool rp (MarkDueDateComplete card_id completed) = mark_due_date_complete card_id completed"
| "due_tool rp (ClearCardDueDate card_id) = clear_card_due_date card_id"

fun attachment_tool :: "(pyval \<Rightarrow> string) \<Rightarrow> attachment_call \<Rightarrow> world \<Rightarrow> pyval \<times> world" where
  "attachment_tool rp (GetCardAttachments card_id) = get_card_attachments card_id"
| "attachment_tool rp (GetAttachment card_id attachment_id) = get_attachment rp card_id attachment_id"
| "attachment_tool rp (AddAttachmentUrl card_id url name) = add_attachment_url card_id url name"
| "attachment_tool rp (AddAttachmentFile card_id file_path name) =
     add_attachment_file card_id file_path name"
| "attachment_tool rp (DownloadAttachment card_id attachment_id output_path) =
     download_attachment rp card_id attachment_id output_path"
| "attachment_tool rp (DeleteAttachment card_id attachment_id) = delete_attachment card_id attachment_id"

fun invoke_tool :: "(pyval \<Rightarrow> string) \<Rightarrow> call \<Rightarrow> world \<Rightarrow> pyval \<times> world" where
  "invoke_tool rp (Board c) = board_tool rp c"
| "invoke_tool rp (Card c) = card_tool rp c"
| "invoke_tool rp (Checklist c) = checklist_tool rp c"
| "invoke_tool rp (Label c) = label_tool rp c"
| "invoke_tool rp (Due c) = due_tool rp c"
| "invoke_tool rp (Attachment c) = attachment_tool rp c"

subsection \<open>Running the client method behind the tool\<close>

fun board_method :: "client \<Rightarrow> board_call \<Rightarrow> pyval prog" where
  "board_method self ListBoards = client_list_boards self"
| "board_method self (GetBoard board_id) = client_get_board self board_id"
| "board_method self (CreateBoard name desc) = client_create_board self name desc"
| "board_method self (GetBoardLists board_id) = client_get_board_lists self board_id"
| "board_method self (CreateList board_id name pos) = client_create_list self board_id name pos"
| "board_method self (ArchiveList list_id) = client_archive_list self list_id"

fun card_method :: "client \<Rightarrow> card_call \<Rightarrow> pyval prog" where
  "card_method self (ListCards list_id) = client_list_cards self list_id"
| "card_method self (GetCard card_id) = client_get_card self card_id"
| "card_method self (CreateCard list_id name desc pos due) =
     client_create_card self list_id name desc pos due"
| "card_method self (UpdateCard card_id name desc list_id due due_complete) =
     client_update_card self card_id name desc list_id due due_complete"
| "card_method self (DeleteCard card_id) = client_delete_card self card_id"
| "card_method self (MoveCard card_id list_id pos) = client_move_card self card_id list_id pos"

fun checklist_method :: "client \<Rightarrow> checklist_call \<Rightarrow> pyval prog" where
  "checklist_method self (GetCardChecklists card_id) = client_get_card_checklists self card_id"
| "checklist_method self (CreateChecklist card_id name pos) =
     client_create_checklist self card_id name pos"
| "checklist_method self (GetChecklist checklist_id) = client_get_checklist self checklist_id"
| "checklist_method self (UpdateChecklist checklist_id name pos) =
     client_update_checklist self checklist_id name pos"
| "checklist_method self (DeleteChecklist checklist_id) = client_delete_checklist self checklist_id"
| "checklist_method self (GetChecklistItems checklist_id) =
     client_get_checklist_items self checklist_id"
| "checklist_method self (AddChecklistItem checklist_id name checked pos) =
     client_add_checklist_item self checklist_id name checked pos"
| "checklist_method self (UpdateChecklistItem card_id checklist_item_id name state pos) =
     client_update_checklist_item self card_id checklist_item_id name state pos"
| "checklist_method self (DeleteChecklistItem checklist_id checklist_item_id) =
     client_delete_checklist_item self checklist_id checklist_item_id"

fun label_method :: "client \<Rightarrow> label_call \<Rightarrow> pyval prog" where
  "label_method self (GetBoardLabels board_id) = client_get_board_labels self board_id"
| "label_method self (CreateLabel board_id name color) = client_create_label self board_id name color"
| "label_method self (UpdateLabel label_id name color) = client_update_label self label_id name color"
| "label_method self (DeleteLabel label_id) = client_delete_label self label_id"
| "label_method self (GetCardLabels card_id) = client_get_card_labels self card_id"
| "label_method self (AddLabelToCard card_id label_id) = client_add_label_to_card self card_id label_id"
| "label_method self (RemoveLabelFromCard card_id label_id) =
     client_remove_label_from_card self card_id label_id"
| "label_method self (SetCardLabels card_id label_ids) = client_set_card_labels self card_id label_ids"

fun due_method :: "client \<Rightarrow> due_call \<Rightarrow> pyval prog" where
  "due_method self (SetCardDueDate card_id due_date) = client_set_card_due_date self card_id due_date"
| "due_method self (MarkDueDateComplete card_id completed) =
     client_mark_due_date_complete self card_id completed"
| "due_method self (ClearCardDueDate card_id) = client_clear_card_due_date self card_id"

fun attachment_method :: "(pyval \<Rightarrow> string) \<Rightarrow> client \<Rightarrow> attachment_call \<Rightarrow> pyval prog" where
  "attachment_method rp self (GetCardAttachments card_id) = client_get_card_attachments self card_id"
| "attachment_method rp self (GetAttachment card_id attachment_id) =
     client_get_attachment self card_id attachment_id"
| "attachment_method rp self (AddAttachmentUrl card_id url name) =
     client_add_attachment_url self card_id url name"
| "attachment_method rp self (AddAttachmentFile card_id file_path name) =
     client_add_attachment_file self card_id file_path name"
| "attachment_method rp self (DownloadAttachment card_id attachment_id output_path) =
     client_download_attachment rp self card_id attachment_id output_path"
| "attachment_method rp self (DeleteAttachment card_id attachment_id) =
     client_delete_attachment self card_id attachment_id"

fun invoke_method :: "(pyval \<Rightarrow> string) \<Rightarrow> client \<Rightarrow> call \<Rightarrow> pyval prog" where
  "invoke_method rp self (Board c) = board_method self c"
| "invoke_method rp self (Card c) = card_method self c"
| "invoke_method rp self (Checklist c) = checklist_method self c"
| "invoke_method rp self (Label c) = label_method self c"
| "invoke_method rp self (Due c) = due_method self c"
| "invoke_method rp self (Attachment c) = attachment_method rp self c"

section \<open>The composite views (server.py, resources)\<close>

definition nl :: string where
  "nl = [CHR 0x0A]"

text \<open>The bullet of the card lines, U+2022, as its UTF-8 bytes.\<close>

definition bullet :: string where
  "bullet = [CHR 0xE2, CHR 0x80, CHR 0xA2]"

text \<open>
  \<open>get_board_resource\<close>, innermost loop: \<open>for card in cards\<close>. The loop runs inside the
  per-list \<open>try\<close>, so an exception leaves the lines appended so far in \<open>output\<close>.
\<close>

fun board_cards_loop :: "(pyval \<Rightarrow> string) \<Rightarrow> pyval list \<Rightarrow> string list \<Rightarrow> exn option \<times> string list" where
  "board_cards_loop rp [] out = (None, out)"
| "board_cards_loop rp (card_obj # cards) out =
     (case py_get card_obj ''name'' (VStr ''Unknown'') of
        Inl e \<Rightarrow> (Some e, out)
      | Inr card_name \<Rightarrow>
          (case py_get card_obj ''id'' (VStr ''N/A'') of
             Inl e \<Rightarrow> (Some e, out)
           | Inr card_id \<Rightarrow>
               (let out1 = out @ [''      '' @ bullet @ '' '' @ py_str rp card_name
                                    @ '' (ID: '' @ py_str rp card_id @ '')'']
                in case py_get card_obj ''desc'' VNone of
                     Inl e \<Rightarrow> (Some e, out1)
                   | Inr d \<Rightarrow>
                       if py_truthy d then
                         (case py_get card_obj ''desc'' VNone of
                            Inl e \<Rightarrow> (Some e, out1)
                          | Inr d' \<Rightarrow>
                              board_cards_loop rp cards
                                (out1 @ [''        Description: '' @ py_str rp d']))
                       else board_cards_loop rp cards out1)))"

text \<open>The body of the per-list \<open>try\<close>: fetch the cards of one list and render them.\<close>

definition board_list_cards ::
  "(pyval \<Rightarrow> string) \<Rightarrow> client \<Rightarrow> pyval \<Rightarrow> string list \<Rightarrow> world
     \<Rightarrow> (exn option \<times> string list) \<times> world" where
  "board_list_cards rp client list_obj out = (\<lambda>w.
     (case py_get list_obj ''id'' VNone of
        Inl e \<Rightarrow> ((Some e, out), w)
      | Inr list_id \<Rightarrow>
          (case client_list_cards client (py_str rp list_id) w of
             (Inl e, w') \<Rightarrow> ((Some e, out), w')
           | (Inr cards, w') \<Rightarrow>
               if py_truthy cards then
                 (case py_len cards of
                    Inl e \<Rightarrow> ((Some e, out), w')
                  | Inr n \<Rightarrow>
                      (let out1 = out @ [''    Cards ('' @ str_nat n @ ''):'']
                       in case py_iter cards of
                            Inl e \<Rightarrow> ((Some e, out1), w')
                          | Inr cs \<Rightarrow> (board_cards_loop rp cs out1, w')))
               else ((None, out @ [''    No cards'']), w'))))"

text \<open>\<open>for list_obj in lists\<close>: the header line, then the guarded card block.\<close>

fun board_lists_loop ::
  "(pyval \<Rightarrow> string) \<Rightarrow> client \<Rightarrow> pyval list \<Rightarrow> string list \<Rightarrow> world
     \<Rightarrow> (exn + string list) \<times> world" where
  "board_lists_loop rp client [] out w = (Inr out, w)"
| "board_lists_loop rp client (list_obj # rest) out w =
     (case py_get list_obj ''name'' (VStr ''Unknown'') of
        Inl e \<Rightarrow> (Inl e, w)
      | Inr list_name \<Rightarrow>
          (case py_get list_obj ''id'' VNone of
             Inl e \<Rightarrow> (Inl e, w)
           | Inr list_id \<Rightarrow>
               (let out1 = out @ [nl @ ''  - '' @ py_str rp list_name
                                    @ '' (ID: '' @ py_str rp list_id @ '')'']
                in case board_list_cards rp client list_obj out1 w of
                     ((None, out2), w') \<Rightarrow> board_lists_loop rp client rest out2 w'
                   | ((Some e, out2), w') \<Rightarrow>
                       board_lists_loop rp client rest (out2 @ [''    Error loading cards'']) w')))"

text \<open>\<open>get_board_resource\<close>: the \<open>try\<close> block, then the function with its handler.\<close>

definition board_view :: "(pyval \<Rightarrow> string) \<Rightarrow> string \<Rightarrow> string prog" where
  "board_view rp board_id =
     bindM get_client (\<lambda>client.
     bindM (client_get_board client board_id) (\<lambda>board.
     bindM (client_get_board_lists client board_id) (\<lambda>lists.
     bindM (liftE (py_get board ''name'' (VStr ''Unknown''))) (\<lambda>board_name.
     bindM (liftE (py_get board ''url'' (VStr ''N/A''))) (\<lambda>board_url.
     bindM (liftE (py_get board ''desc'' (VStr ''No description''))) (\<lambda>board_desc.
     bindM (liftE (py_len lists)) (\<lambda>n.
     (let out = [''Board: '' @ py_str rp board_name,
                 ''URL: '' @ py_str rp board_url,
                 ''Description: '' @ py_str rp board_desc,
                 nl @ ''Lists ('' @ str_nat n @ ''):'']
      in bindM (liftE (py_iter lists)) (\<lambda>items.
         bindM (board_lists_loop rp client items out) (\<lambda>out'.
         returnM (py_join nl out')))))))))))"

definition get_board_resource :: "(pyval \<Rightarrow> string) \<Rightarrow> string \<Rightarrow> world \<Rightarrow> string \<times> world" where
  "get_board_resource rp board_id = guarded
     (board_view rp board_id)
     (\<lambda>e w. (''Error loading board '' @ board_id @ '': '' @ exn_str e, w))"




section \<open>Vocabulary of the properties\<close>

text \<open>A request carries the client's two credentials as query parameters.\<close>

definition carries_credentials :: "client \<Rightarrow> http_request \<Rightarrow> bool" where
  "carries_credentials self r =
     (map_of (req_params r) ''key'' = Some (VStr (api_key self))
      \<and> map_of (req_params r) ''token'' = Some (VStr (api_token self)))"

text \<open>
  The shaping rule in the specification's words: a parameter is left out when its input is
  absent or empty. Beside it, the weaker rule that leaves a parameter out only when its
  input is absent.
\<close>

definition omit_if_empty :: "string \<Rightarrow> string option \<Rightarrow> dict" where
  "omit_if_empty k v = (case v of None \<Rightarrow> [] | Some s \<Rightarrow> if s = [] then [] else [(k, VStr s)])"

definition omit_if_absent :: "string \<Rightarrow> pyval option \<Rightarrow> dict" where
  "omit_if_absent k v = (case v of None \<Rightarrow> [] | Some x \<Rightarrow> [(k, x)])"

text \<open>The arguments of an invocation, under the parameter names of the tool's signature.\<close>

definition opt_str :: "string option \<Rightarrow> pyval" where
  "opt_str v = (case v of None \<Rightarrow> VNone | Some s \<Rightarrow> VStr s)"

definition opt_bool :: "bool option \<Rightarrow> pyval" where
  "opt_bool v = (case v of None \<Rightarrow> VNone | Some b \<Rightarrow> VBool b)"

fun board_args :: "board_call \<Rightarrow> dict" where
  "board_args ListBoards = []"
| "board_args (GetBoard board_id) = [(''board_id'', VStr board_id)]"
| "board_args (CreateBoard name desc) = [(''name'', VStr name), (''desc'', opt_str desc)]"
| "board_args (GetBoardLists board_id) = [(''board_id'', VStr board_id)]"
| "board_args (CreateList board_id name pos) =
     [(''board_id'', VStr board_id), (''name'', VStr name), (''pos'', opt_str pos)]"
| "board_args (ArchiveList list_id) = [(''list_id'', VStr list_id)]"

fun card_args :: "card_call \<Rightarrow> dict" where
  "card_args (ListCards list_id) = [(''list_id'', VStr list_id)]"
| "card_args (GetCard card_id) = [(''card_id'', VStr card_id)]"
| "card_args (CreateCard list_id name desc pos due) =
     [(''list_id'', VStr list_id), (''name'', VStr name), (''desc'', opt_str desc),
      (''pos'', opt_str pos), (''due'', opt_str due)]"
| "card_args (UpdateCard card_id name desc list_id due due_complete) =
     [(''card_id'', VStr card_id), (''name'', opt_str name), (''desc'', opt_str desc),
      (''list_id'', opt_str list_id), (''due'', opt_str due), (''due_complete'', opt_bool due_complete)]"
| "card_args (DeleteCard card_id) = [(''card_id'', VStr card_id)]"
| "card_args (MoveCard card_id list_id pos) =
     [(''card_id'', VStr card_id), (''list_id'', VStr list_id), (''pos'', opt_str pos)]"

fun checklist_args :: "checklist_call \<Rightarrow> dict" where
  "checklist_args (GetCardChecklists card_id) = [(''card_id'', VStr card_id)]"
| "checklist_args (CreateChecklist card_id name pos) =
     [(''card_id'', VStr card_id), (''name'', VStr name), (''pos'', opt_str pos)]"
| "checklist_args (GetChecklist checklist_id) = [(''checklist_id'', VStr checklist_id)]"
| "checklist_args (UpdateChecklist checklist_id name pos) =
     [(''checklist_id'', VStr checklist_id), (''name'', opt_str name), (''pos'', opt_str pos)]"
| "checklist_args (DeleteChecklist checklist_id) = [(''checklist_id'', VStr checklist_id)]"
| "checklist_args (GetChecklistItems checklist_id) = [(''checklist_id'', VStr checklist_id)]"
| "checklist_args (AddChecklistItem checklist_id name checked pos) =
     [(''checklist_id'', VStr checklist_id), (''name'', VStr name), (''checked'', opt_bool checked),
      (''pos'', opt_str pos)]"
| "checklist_args (UpdateChecklistItem card_id checklist_item_id name state pos) =
     [(''card_id'', VStr card_id), (''checklist_item_id'', VStr checklist_item_id),
      (''name'', opt_str name), (''state'', opt_str state), (''pos'', opt_str pos)]"
| "checklist_args (DeleteChecklistItem checklist_id checklist_item_id) =
     [(''checklist_id'', VStr checklist_id), (''checklist_item_id'', VStr checklist_item_id)]"

fun label_args :: "label_call \<Rightarrow> dict" where
  "label_args (GetBoardLabels board_id) = [(''board_id'', VStr board_id)]"
| "label_args (CreateLabel board_id name color) =
     [(''board_id'', VStr board_id), (''name'', VStr name), (''color'', opt_str color)]"
| "label_args (UpdateLabel label_id name color) =
     [(''label_id'', VStr label_id), (''name'', opt_str name), (''color'', opt_str color)]"
| "label_args (DeleteLabel label_id) = [(''label_id'', VStr label_id)]"
| "label_args (GetCardLabels card_id) = [(''card_id'', VStr card_id)]"
| "label_args (AddLabelToCard card_id label_id) =
     [(''card_id'', VStr card_id), (''label_id'', VStr label_id)]"
| "label_args (RemoveLabelFromCard card_id label_id) =
     [(''card_id'', VStr card_id), (''label_id'', VStr label_id)]"
| "label_args (SetCardLabels card_id label_ids) =
     [(''card_id'', VStr card_id), (''label_ids'', VList (map VStr label_ids))]"

fun due_args :: "due_call \<Rightarrow> dict" where
  "due_args (SetCardDueDate card_id due_date) =
     [(''card_id'', VStr card_id), (''due_date'', VStr due_date)]"
| "due_args (MarkDueDateComplete card_id completed) =
     [(''card_id'', VStr card_id), (''complete'', VBool completed)]"
| "due_args (ClearCardDueDate card_id) = [(''card_id'', VStr card_id)]"

fun attachment_args :: "attachment_call \<Rightarrow> dict" where
  "attachment_args (GetCardAttachments card_id) = [(''card_id'', VStr card_id)]"
| "attachment_args (GetAttachment card_id attachment_id) =
     [(''card_id'', VStr card_id), (''attachment_id'', VStr attachment_id)]"
| "attachment_args (AddAttachmentUrl card_id url name) =
     [(''card_id'', VStr card_id), (''url'', VStr url), (''name'', opt_str name)]"
| "attachment_args (AddAttachmentFile card_id file_path name) =
     [(''card_id'', VStr card_id), (''file_path'', VStr file_path), (''name'', opt_str name)]"
| "attachment_args (DownloadAttachment card_id attachment_id output_path) =
     [(''card_id'', VStr card_id), (''attachment_id'', VStr attachment_id),
      (''output_path'', VStr output_path)]"
| "attachment_args (DeleteAttachment card_id attachment_id) =
     [(''card_id'', VStr card_id), (''attachment_id'', VStr attachment_id)]"

fun call_args :: "call \<Rightarrow> dict" where
  "call_args (Board c) = board_args c"
| "call_args (Card c) = card_args c"
| "call_args (Checklist c) = checklist_args c"
| "call_args (Label c) = label_args c"
| "call_args (Due c) = due_args c"
| "call_args (Attachment c) = attachment_args c"

text \<open>
  The identifying parameters of an invocation: the arguments that the tool's handler puts
  beside \<open>error\<close> in the object it returns, in that order.
\<close>

fun board_identifying :: "board_call \<Rightarrow> dict" where
  "board_identifying ListBoards = []"
| "board_identifying (GetBoard board_id) = [(''board_id'', VStr board_id)]"
| "board_identifying (CreateBoard name desc) = [(''name'', VStr name)]"
| "board_identifying (GetBoardLists board_id) = [(''board_id'', VStr board_id)]"
| "board_identifying (CreateList board_id name pos) =
     [(''board_id'', VStr board_id), (''name'', VStr name)]"
| "board_identifying (ArchiveList list_id) = [(''list_id'', VStr list_id)]"

fun card_identifying :: "card_call \<Rightarrow> dict" where
  "card_identifying (ListCards list_id) = [(''list_id'', VStr list_id)]"
| "card_identifying (GetCard card_id) = [(''card_id'', VStr card_id)]"
| "card_identifying (CreateCard list_id name desc pos due) =
     [(''list_id'', VStr list_id), (''name'', VStr name)]"
| "card_identifying (UpdateCard card_id name desc list_id due due_complete) =
     [(''card_id'', VStr card_id)]"
| "card_identifying (DeleteCard card_id) = [(''card_id'', VStr card_id)]"
| "card_identifying (MoveCard card_id list_id pos) =
     [(''card_id'', VStr card_id), (''list_id'', VStr list_id)]"

fun checklist_identifying :: "checklist_call \<Rightarrow> dict" where
  "checklist_identifying (GetCardChecklists card_id) = [(''card_id'', VStr card_id)]"
| "checklist_identifying (CreateChecklist card_id name pos) =
     [(''card_id'', VStr card_id), (''name'', VStr name)]"
| "checklist_identifying (GetChecklist checklist_id) = [(''checklist_id'', VStr checklist_id)]"
| "checklist_identifying (UpdateChecklist checklist_id name pos) =
     [(''checklist_id'', VStr checklist_id)]"
| "checklist_identifying (DeleteChecklist checklist_id) = [(''checklist_id'', VStr checklist_id)]"
| "checklist_identifying (GetChecklistItems checklist_id) = [(''checklist_id'', VStr checklist_id)]"
| "checklist_identifying (AddChecklistItem checklist_id name checked pos) =
     [(''checklist_id'', VStr checklist_id), (''name'', VStr name)]"
| "checklist_identifying (UpdateChecklistItem card_id checklist_item_id name state pos) =
     [(''card_id'', VStr card_id), (''checklist_item_id'', VStr checklist_item_id)]"
| "checklist_identifying (DeleteChecklistItem checklist_id checklist_item_id) =
     [(''checklist_id'', VStr checklist_id), (''checklist_item_id'', VStr checklist_item_id)]"

fun label_identifying :: "label_call \<Rightarrow> dict" where
  "label_identifying (GetBoardLabels board_id) = [(''board_id'', VStr board_id)]"
| "label_identifying (CreateLabel board_id name color) =
     [(''board_id'', VStr board_id), (''name'', VStr name)]"
| "label_identifying (UpdateLabel label_id name color) = [(''label_id'', VStr label_id)]"
| "label_identifying (DeleteLabel label_id) = [(''label_id'', VStr label_id)]"
| "label_identifying (GetCardLabels card_id) = [(''card_id'', VStr card_id)]"
| "label_identifying (AddLabelToCard card_id label_id) =
     [(''card_id'', VStr card_id), (''label_id'', VStr label_id)]"
| "label_identifying (RemoveLabelFromCard card_id label_id) =
     [(''card_id'', VStr card_id), (''label_id'', VStr label_id)]"
| "label_identifying (SetCardLabels card_id label_ids) =
     [(''card_id'', VStr card_id), (''label_ids'', VList (map VStr label_ids))]"

fun due_identifying :: "due_call \<Rightarrow> dict" where
  "due_identifying (SetCardDueDate card_id due_date) =
     [(''card_id'', VStr card_id), (''due_date'', VStr due_date)]"
| "due_identifying (MarkDueDateComplete card_id completed) = [(''card_id'', VStr card_id)]"
| "due_identifying (ClearCardDueDate card_id) = [(''card_id'', VStr card_id)]"

fun attachment_identifying :: "attachment_call \<Rightarrow> dict" where
  "attachment_identifying (GetCardAttachments card_id) = [(''card_id'', VStr card_id)]"
| "attachment_identifying (GetAttachment card_id attachment_id) =
     [(''card_id'', VStr card_id), (''attachment_id'', VStr attachment_id)]"
| "attachment_identifying (AddAttachmentUrl card_id url name) =
     [(''card_id'', VStr card_id), (''url'', VStr url)]"
| "attachment_identifying (AddAttachmentFile card_id file_path name) =
     [(''card_id'', VStr card_id), (''file_path'', VStr file_path)]"
| "attachment_identifying (DownloadAttachment card_id attachment_id output_path) =
     [(''card_id'', VStr card_id), (''attachment_id'', VStr attachment_id),
      (''output_path'', VStr output_path)]"
| "attachment_identifying (DeleteAttachment card_id attachment_id) =
     [(''card_id'', VStr card_id), (''attachment_id'', VStr attachment_id)]"

fun identifying :: "call \<Rightarrow> dict" where
  "identifying (Board c) = board_identifying c"
| "identifying (Card c) = card_identifying c"
| "identifying (Checklist c) = checklist_identifying c"
| "identifying (Label c) = label_identifying c"
| "identifying (Due c) = due_identifying c"
| "identifying (Attachment c) = attachment_identifying c"

text \<open>
  The eight tools declared to return a collection: \<open>list_boards\<close>, \<open>get_board_lists\<close>,
  \<open>list_cards\<close>, \<open>get_card_checklists\<close>, \<open>get_checklist_items\<close>, \<open>get_board_labels\<close>,
  \<open>get_card_labels\<close> and \<open>get_card_attachments\<close>.
\<close>

definition collection :: "call \<Rightarrow> bool" where
  "collection c =
     (case c of
        Board b \<Rightarrow> (case b of ListBoards \<Rightarrow> True | GetBoardLists x \<Rightarrow> True | _ \<Rightarrow> False)
      | Card b \<Rightarrow> (case b of ListCards x \<Rightarrow> True | _ \<Rightarrow> False)
      | Checklist b \<Rightarrow>
          (case b of GetCardChecklists x \<Rightarrow> True | GetChecklistItems x \<Rightarrow> True | _ \<Rightarrow> False)
      | Label b \<Rightarrow> (case b of GetBoardLabels x \<Rightarrow> True | GetCardLabels x \<Rightarrow> True | _ \<Rightarrow> False)
      | Due b \<Rightarrow> False
      | Attachment b \<Rightarrow> (case b of GetCardAttachments x \<Rightarrow> True | _ \<Rightarrow> False))"

text \<open>The four tools that read the \<open>name\<close> of their result for the info event.\<close>

definition reads_name :: "call \<Rightarrow> bool" where
  "reads_name c =
     (case c of
        Board b \<Rightarrow> (case b of GetBoard x \<Rightarrow> True | _ \<Rightarrow> False)
      | Card b \<Rightarrow> (case b of GetCard x \<Rightarrow> True | _ \<Rightarrow> False)
      | Checklist b \<Rightarrow> (case b of GetChecklist x \<Rightarrow> True | _ \<Rightarrow> False)
      | Label b \<Rightarrow> False
      | Due b \<Rightarrow> False
      | Attachment b \<Rightarrow> (case b of GetAttachment x y \<Rightarrow> True | _ \<Rightarrow> False))"

fun is_dict :: "pyval \<Rightarrow> bool" where
  "is_dict (VDict d) = True"
| "is_dict v = False"

fun is_sized :: "pyval \<Rightarrow> bool" where
  "is_sized (VList xs) = True"
| "is_sized (VDict d) = True"
| "is_sized (VStr s) = True"
| "is_sized v = False"

text \<open>
  What a tool result must look like for the tool's own bookkeeping not to fail on it: a
  JSON object where the tool reads its name, a sized value where the tool counts it.
\<close>

definition inspectable :: "call \<Rightarrow> pyval \<Rightarrow> bool" where
  "inspectable c v = (if reads_name c then is_dict v else if collection c then is_sized v else True)"

text \<open>
  File-name resolution in the specification's words: the stored file name is preferred
  over the generic name, and that over the literal \<open>download\<close>; a field that is missing,
  null or empty does not count.
\<close>

definition field :: "dict \<Rightarrow> string \<Rightarrow> pyval" where
  "field d k = (case map_of d k of None \<Rightarrow> VNone | Some v \<Rightarrow> v)"

fun first_truthy :: "pyval list \<Rightarrow> pyval \<Rightarrow> pyval" where
  "first_truthy [] fallback = fallback"
| "first_truthy (x # xs) fallback = (if py_truthy x then x else first_truthy xs fallback)"

definition preferred_filename :: "dict \<Rightarrow> pyval" where
  "preferred_filename att = first_truthy [field att ''fileName'', field att ''name''] (VStr ''download'')"

text \<open>
  The board view in the specification's words: after the four header lines, each list
  contributes a block of its own, the line naming the list followed by its cards, by the
  no-cards line, or by the error notice when its cards could not be loaded.
\<close>

definition field_or :: "dict \<Rightarrow> string \<Rightarrow> pyval \<Rightarrow> pyval" where
  "field_or d k dflt = (case map_of d k of None \<Rightarrow> dflt | Some v \<Rightarrow> v)"




section \<open>Sample clients and worlds\<close>

definition sample_client :: client where
  "sample_client = \<lparr>api_key = ''K'', api_token = ''T''\<rparr>"

text \<open>A world whose service gives the same outcome to every request.\<close>

definition answering :: "http_outcome \<Rightarrow> world" where
  "answering outcome =
     \<lparr>net = (\<lambda>history req. outcome), sent = [],
      files = (\<lambda>p. None), read_fault = (\<lambda>p. None), write_fault = (\<lambda>p. None),
      env_key = None, env_token = None, trello_client = Some sample_client, events = []\<rparr>"

definition ok_json :: "pyval \<Rightarrow> http_outcome" where
  "ok_json v = Responded \<lparr>status_code = 200, content = [], decoded = Inr v\<rparr>"

definition status_only :: "int \<Rightarrow> http_outcome" where
  "status_only n = Responded \<lparr>status_code = n, content = [], decoded = Inl ''no body''\<rparr>"

text \<open>The same world with one more local file.\<close>

definition with_file :: "string \<Rightarrow> string \<Rightarrow> world \<Rightarrow> world" where
  "with_file p data w = w\<lparr>files := (files w)(p := Some data)\<rparr>"

text \<open>
  A world whose service answers the metadata request of attachment \<open>a1\<close> on card \<open>c1\<close>
  with a JSON object, and every other request with a body of five bytes.
\<close>

definition attachment_world :: world where
  "attachment_world =
     \<lparr>net = (\<lambda>history req.
        if req_url req = ''https://api.trello.com/1/cards/c1/attachments/a1''
        then ok_json (VDict [(''id'', VStr ''a1''), (''name'', VStr ''notes''), (''fileName'', VStr ''notes.txt'')])
        else Responded \<lparr>status_code = 200, content = ''hello'', decoded = Inl ''not JSON''\<rparr>),
      sent = [], files = (\<lambda>p. None), read_fault = (\<lambda>p. None), write_fault = (\<lambda>p. None),
      env_key = None, env_token = None, trello_client = Some sample_client, events = []\<rparr>"


section \<open>Properties of the request primitive\<close>

lemma map_of_dict_set: "map_of (dict_set k v d) = (map_of d)(k \<mapsto> v)"
  by (induction d) (auto simp: fun_eq_iff)

lemma map_of_add_auth:
  "map_of (add_auth self params) =
     (case params of None \<Rightarrow> Map.empty | Some p \<Rightarrow> map_of p)
       (''key'' \<mapsto> VStr (api_key self), ''token'' \<mapsto> VStr (api_token self))"
  by (cases params) (auto simp: add_auth_def Let_def map_of_dict_set fun_eq_iff)

lemma sent_request:
  "sent (snd (request self method endpoint params json w)) =
     sent w @ [\<lparr>req_method = method, req_url = BASE_URL @ endpoint,
                req_params = add_auth self params, req_json = json, req_files = []\<rparr>]"
  by (simp add: request_def transmit_def Let_def split: http_outcome.splits sum.splits)

lemma issued_request:
  "issued (request self method endpoint params json) w =
     [\<lparr>req_method = method, req_url = BASE_URL @ endpoint,
       req_params = add_auth self params, req_json = json, req_files = []\<rparr>]"
  by (simp add: issued_def sent_request)

lemma str_int_500: "str_int 500 = ''500''"
  by (simp add: str_int_def str_nat.simps digit_char_def)

text \<open>
  C2. Whatever the request, a response whose status is not 2xx makes \<open>_request\<close> raise:
  status 401 with the invalid-credentials message, 404 with a not-found message that names
  the endpoint, 429 with the rate-limit message and its advice, every other status with a
  message that carries the status number. A transport error makes it raise a network
  failure whose message carries the cause, and that message differs from each of the
  others. All of these are raised as \<open>Exception\<close>; the message is what tells them apart.
\<close>

theorem request_classifies_failures:
  "(net w (sent w) \<lparr>req_method = meth, req_url = BASE_URL @ endpoint,
                     req_params = add_auth self params, req_json = json, req_files = []\<rparr>
      = Responded r \<and> \<not> is_success r \<longrightarrow>
      fst (request self meth endpoint params json w) =
        Inl (Exception
          (if status_code r = 401 then ''Invalid Trello API credentials''
           else if status_code r = 404 then ''Resource not found: '' @ endpoint
           else if status_code r = 429 then
             ''Trello API rate limit exceeded. Consider using webhooks for frequent updates.''
           else ''Trello API error: '' @ str_int (status_code r))))
   \<and> (net w (sent w) \<lparr>req_method = meth, req_url = BASE_URL @ endpoint,
                     req_params = add_auth self params, req_json = json, req_files = []\<rparr>
      = RequestError cause \<longrightarrow>
      fst (request self meth endpoint params json w) = Inl (Exception (''Network error: '' @ cause)))
   \<and> ''Network error: '' @ cause \<noteq> ''Invalid Trello API credentials''
   \<and> ''Network error: '' @ cause \<noteq> ''Resource not found: '' @ endpoint
   \<and> ''Network error: '' @ cause \<noteq>
         ''Trello API rate limit exceeded. Consider using webhooks for frequent updates.''
   \<and> ''Network error: '' @ cause \<noteq> ''Trello API error: '' @ str_int n"
  by (simp add: request_def transmit_def Let_def)

theorem request_classifies_failures_witness:
  "fst (request sample_client ''GET'' ''/boards/b1'' None None (answering (status_only 404)))
     = Inl (Exception ''Resource not found: /boards/b1'')
   \<and> fst (request sample_client ''GET'' ''/boards/b1'' None None (answering (status_only 401)))
     = Inl (Exception ''Invalid Trello API credentials'')
   \<and> fst (request sample_client ''GET'' ''/boards/b1'' None None (answering (status_only 429)))
     = Inl (Exception ''Trello API rate limit exceeded. Consider using webhooks for frequent updates.'')
   \<and> fst (request sample_client ''GET'' ''/boards/b1'' None None (answering (status_only 500)))
     = Inl (Exception ''Trello API error: 500'')
   \<and> fst (request sample_client ''GET'' ''/boards/b1'' None None (answering (RequestError ''timed out'')))
     = Inl (Exception ''Network error: timed out'')"
  using
    request_classifies_failures [where w = "answering (status_only 404)" and meth = "''GET''"
      and endpoint = "''/boards/b1''" and self = sample_client and params = None and json = None
      and r = "\<lparr>status_code = 404, content = [], decoded = Inl ''no body''\<rparr>"]
    request_classifies_failures [where w = "answering (status_only 401)" and meth = "''GET''"
      and endpoint = "''/boards/b1''" and self = sample_client and params = None and json = None
      and r = "\<lparr>status_code = 401, content = [], decoded = Inl ''no body''\<rparr>"]
    request_classifies_failures [where w = "answering (status_only 429)" and meth = "''GET''"
      and endpoint = "''/boards/b1''" and self = sample_client and params = None and json = None
      and r = "\<lparr>status_code = 429, content = [], decoded = Inl ''no body''\<rparr>"]
    request_classifies_failures [where w = "answering (status_only 500)" and meth = "''GET''"
      and endpoint = "''/boards/b1''" and self = sample_client and params = None and json = None
      and r = "\<lparr>status_code = 500, content = [], decoded = Inl ''no body''\<rparr>"]
    request_classifies_failures [where w = "answering (RequestError ''timed out'')"
      and meth = "''GET''" and endpoint = "''/boards/b1''" and self = sample_client
      and params = None and json = None and cause = "''timed out''"]
  by (simp add: answering_def status_only_def is_success_def str_int_500)

subsection \<open>Credentials on every request\<close>

lemmas client_defs =
  client_list_boards_def client_get_board_def client_create_board_def client_get_board_lists_def
  client_create_list_def client_archive_list_def client_list_cards_def client_get_card_def
  client_create_card_def client_update_card_def client_delete_card_def client_move_card_def
  client_set_card_due_date_def client_mark_due_date_complete_def client_clear_card_due_date_def
  client_get_card_checklists_def client_create_checklist_def client_get_checklist_def
  client_update_checklist_def client_delete_checklist_def client_get_checklist_items_def
  client_add_checklist_item_def client_update_checklist_item_def client_delete_checklist_item_def
  client_get_board_labels_def client_create_label_def client_get_label_def client_update_label_def
  client_delete_label_def client_get_card_labels_def client_add_label_to_card_def
  client_remove_label_from_card_def client_set_card_labels_def client_get_card_attachments_def
  client_get_attachment_def client_add_attachment_url_def client_delete_attachment_def

lemma authed_request: "list_all (carries_credentials self) (issued (request self m e p j) w)"
  by (simp add: issued_request carries_credentials_def map_of_add_auth)

lemma sent_download_to_file:
  "sent (snd (download_to_file rp self card_id attachment_id output_path filename w)) =
     sent w @ [\<lparr>req_method = ''GET'',
                req_url = BASE_URL @ ''/cards/'' @ card_id @ ''/attachments/'' @ attachment_id
                            @ ''/download/'' @ py_str rp filename,
                req_params = add_auth self None, req_json = None, req_files = []\<rparr>]"
  by (simp add: download_to_file_def transmit_def Let_def
      split: http_outcome.splits option.splits)

lemma sent_bindM:
  "sent (snd (bindM m f w)) =
     (case m w of (Inl e, w') \<Rightarrow> sent w' | (Inr x, w') \<Rightarrow> sent (snd (f x w')))"
  by (simp add: bindM_def split: prod.splits sum.splits)

lemma sent_download:
  "sent (snd (client_download_attachment rp self card_id attachment_id output_path w)) =
     sent w @
       \<lparr>req_method = ''GET'',
        req_url = BASE_URL @ ''/cards/'' @ card_id @ ''/attachments/'' @ attachment_id,
        req_params = add_auth self None, req_json = None, req_files = []\<rparr>
       # (case client_get_attachment self card_id attachment_id w of
            (Inl e, w') \<Rightarrow> []
          | (Inr attachment, w') \<Rightarrow>
              (case resolve_filename attachment of
                 Inl e \<Rightarrow> []
               | Inr filename \<Rightarrow>
                   [\<lparr>req_method = ''GET'',
                     req_url = BASE_URL @ ''/cards/'' @ card_id @ ''/attachments/'' @ attachment_id
                                 @ ''/download/'' @ py_str rp filename,
                     req_params = add_auth self None, req_json = None, req_files = []\<rparr>]))"
proof -
  have s1: "sent (snd (client_get_attachment self card_id attachment_id w)) =
     sent w @ [\<lparr>req_method = ''GET'',
        req_url = BASE_URL @ ''/cards/'' @ card_id @ ''/attachments/'' @ attachment_id,
        req_params = add_auth self None, req_json = None, req_files = []\<rparr>]"
    by (simp add: client_get_attachment_def sent_request)
  show ?thesis
  proof (cases "client_get_attachment self card_id attachment_id w")
    case (Pair r w')
    with s1 have sw: "sent w' = sent w @ [\<lparr>req_method = ''GET'',
        req_url = BASE_URL @ ''/cards/'' @ card_id @ ''/attachments/'' @ attachment_id,
        req_params = add_auth self None, req_json = None, req_files = []\<rparr>]" by simp
    show ?thesis
      by (cases r)
         (simp_all add: client_download_attachment_def sent_bindM Pair sw liftE_def
            sent_download_to_file split: sum.splits)
  qed
qed

lemma authed_download:
  "list_all (carries_credentials self)
     (issued (client_download_attachment rp self card_id attachment_id output_path) w)"
  by (simp add: issued_def sent_download carries_credentials_def map_of_add_auth
      split: prod.splits sum.splits)

lemma sent_upload:
  "sent (snd (client_add_attachment_file self card_id file_path name w)) =
     sent w @
       (case files w file_path of
          None \<Rightarrow> []
        | Some data \<Rightarrow>
            (case read_fault w file_path of
               Some m \<Rightarrow> []
             | None \<Rightarrow>
                 [\<lparr>req_method = ''POST'', req_url = BASE_URL @ ''/cards/'' @ card_id @ ''/attachments'',
                   req_params = add_auth self None, req_json = None,
                   req_files = [(''file'',
                      (case name of None \<Rightarrow> basename file_path
                       | Some n \<Rightarrow> if n \<noteq> [] then n else basename file_path), data)]\<rparr>]))"
  by (simp add: client_add_attachment_file_def transmit_def Let_def
      split: option.splits http_outcome.splits sum.splits)

lemma authed_upload:
  "list_all (carries_credentials self)
     (issued (client_add_attachment_file self card_id file_path name) w)"
  by (simp add: issued_def sent_upload carries_credentials_def map_of_add_auth split: option.splits)

lemma authed_board: "list_all (carries_credentials self) (issued (board_method self c) w)"
  by (cases c) (simp_all add: client_defs Let_def authed_request)

lemma authed_card: "list_all (carries_credentials self) (issued (card_method self c) w)"
  by (cases c) (simp_all add: client_defs Let_def authed_request)

lemma authed_checklist: "list_all (carries_credentials self) (issued (checklist_method self c) w)"
  by (cases c) (simp_all add: client_defs Let_def authed_request)

lemma authed_label: "list_all (carries_credentials self) (issued (label_method self c) w)"
  by (cases c) (simp_all add: client_defs Let_def authed_request)

lemma authed_due: "list_all (carries_credentials self) (issued (due_method self c) w)"
  by (cases c) (simp_all add: client_defs Let_def authed_request)

lemma authed_attachment:
  "list_all (carries_credentials self) (issued (attachment_method rp self c) w)"
  by (cases c) (simp_all add: client_defs Let_def authed_request authed_upload authed_download)

text \<open>
  C3. \<open>_request\<close> sends exactly one request, whose query parameters are the caller's
  merged with the credentials: \<open>key\<close> and \<open>token\<close> hold the client's values whatever the
  caller supplied under those names, and every other parameter is the caller's. Every
  request made by any client method carries the two credentials.
\<close>

theorem credentials_injected:
  "issued (request self method endpoint params json) w =
     [\<lparr>req_method = method, req_url = BASE_URL @ endpoint,
       req_params = add_auth self params, req_json = json, req_files = []\<rparr>]
   \<and> map_of (add_auth self params) ''key'' = Some (VStr (api_key self))
   \<and> map_of (add_auth self params) ''token'' = Some (VStr (api_token self))
   \<and> (k \<noteq> ''key'' \<and> k \<noteq> ''token'' \<longrightarrow>
        map_of (add_auth self params) k = (case params of None \<Rightarrow> None | Some p \<Rightarrow> map_of p k))
   \<and> list_all (carries_credentials self) (issued (invoke_method rp self c) w')"
proof -
  have "list_all (carries_credentials self) (issued (invoke_method rp self c) w')"
    by (cases c)
       (simp_all add: authed_board authed_card authed_checklist authed_label authed_due
          authed_attachment)
  then show ?thesis
    by (cases params) (simp_all add: issued_request map_of_add_auth)
qed

theorem credentials_injected_witness:
  "map_of (add_auth sample_client (Some [(''key'', VStr ''mine''), (''name'', VStr ''x'')])) ''key''
     = Some (VStr ''K'')
   \<and> map_of (add_auth sample_client (Some [(''key'', VStr ''mine''), (''name'', VStr ''x'')])) ''name''
     = Some (VStr ''x'')
   \<and> list_all (carries_credentials sample_client)
        (issued (invoke_method (\<lambda>v. []) sample_client (Card (GetCard ''c1'')))
           (answering (ok_json (VDict []))))"
  using credentials_injected [where self = sample_client
      and params = "Some [(''key'', VStr ''mine''), (''name'', VStr ''x'')]" and k = "''name''"
      and rp = "\<lambda>v. []" and c = "Card (GetCard ''c1'')" and w' = "answering (ok_json (VDict []))"]
  by (simp add: sample_client_def)

section \<open>Properties of the resource methods\<close>

lemmas shaping_defs =
  Let_def set_if_truthy_def set_if_not_None_def omit_if_empty_def omit_if_absent_def

lemma create_board_shape:
  "client_create_board self name desc =
     request self ''POST'' ''/boards/'' (Some ([(''name'', VStr name)] @ omit_if_empty ''desc'' desc)) None"
  by (auto simp add: client_create_board_def shaping_defs split: option.splits)

lemma create_list_shape:
  "client_create_list self board_id name pos =
     request self ''POST'' (''/boards/'' @ board_id @ ''/lists'')
       (Some ([(''name'', VStr name)] @ omit_if_empty ''pos'' pos)) None"
  by (auto simp add: client_create_list_def shaping_defs split: option.splits)

lemma create_card_shape:
  "client_create_card self list_id name desc pos due =
     request self ''POST'' ''/cards''
       (Some ([(''idList'', VStr list_id), (''name'', VStr name)] @ omit_if_empty ''desc'' desc
              @ omit_if_empty ''pos'' pos @ omit_if_empty ''due'' due)) None"
  by (auto simp add: client_create_card_def shaping_defs split: option.splits)

lemma update_card_shape:
  "client_update_card self card_id name desc list_id due due_complete =
     request self ''PUT'' (''/cards/'' @ card_id)
       (Some (omit_if_empty ''name'' name @ omit_if_empty ''desc'' desc
              @ omit_if_empty ''idList'' list_id @ omit_if_absent ''due'' (map_option VStr due)
              @ omit_if_absent ''dueComplete'' (map_option VBool due_complete))) None"
  by (auto simp add: client_update_card_def shaping_defs split: option.splits)

lemma move_card_shape:
  "client_move_card self card_id list_id pos =
     request self ''PUT'' (''/cards/'' @ card_id)
       (Some ([(''idList'', VStr list_id)] @ omit_if_empty ''pos'' pos)) None"
  by (auto simp add: client_move_card_def shaping_defs split: option.splits)

lemma create_checklist_shape:
  "client_create_checklist self card_id name pos =
     request self ''POST'' ''/checklists''
       (Some ([(''idCard'', VStr card_id)] @ omit_if_empty ''name'' (Some name)
              @ omit_if_empty ''pos'' pos)) None"
  by (auto simp add: client_create_checklist_def shaping_defs split: option.splits)

lemma update_checklist_shape:
  "client_update_checklist self checklist_id name pos =
     request self ''PUT'' (''/checklists/'' @ checklist_id)
       (Some (omit_if_empty ''name'' name @ omit_if_empty ''pos'' pos)) None"
  by (auto simp add: client_update_checklist_def shaping_defs split: option.splits)

lemma add_checklist_item_shape:
  "client_add_checklist_item self checklist_id name checked pos =
     request self ''POST'' (''/checklists/'' @ checklist_id @ ''/checkItems'')
       (Some ([(''name'', VStr name)]
              @ omit_if_absent ''checked'' (map_option (\<lambda>b. VStr (str_lower_bool b)) checked)
              @ omit_if_empty ''pos'' pos)) None"
  by (auto simp add: client_add_checklist_item_def shaping_defs split: option.splits)

lemma update_checklist_item_shape:
  "client_update_checklist_item self card_id checklist_item_id name state pos =
     request self ''PUT'' (''/cards/'' @ card_id @ ''/checkItem/'' @ checklist_item_id)
       (Some (omit_if_empty ''name'' name @ omit_if_empty ''state'' state
              @ omit_if_empty ''pos'' pos)) None"
  by (auto simp add: client_update_checklist_item_def shaping_defs split: option.splits)

lemma create_label_shape:
  "client_create_label self board_id name color =
     request self ''POST'' ''/labels''
       (Some ([(''idBoard'', VStr board_id), (''name'', VStr name)]
              @ omit_if_absent ''color'' (map_option VStr color))) None"
  by (auto simp add: client_create_label_def shaping_defs split: option.splits)

lemma update_label_shape:
  "client_update_label self label_id name color =
     request self ''PUT'' (''/labels/'' @ label_id)
       (Some (omit_if_absent ''name'' (map_option VStr name)
              @ omit_if_absent ''color'' (map_option VStr color))) None"
  by (auto simp add: client_update_label_def shaping_defs split: option.splits)

lemma add_attachment_url_shape:
  "client_add_attachment_url self card_id url name =
     request self ''POST'' (''/cards/'' @ card_id @ ''/attachments'')
       (Some ([(''url'', VStr url)] @ omit_if_empty ''name'' name)) None"
  by (auto simp add: client_add_attachment_url_def shaping_defs split: option.splits)

text \<open>
  C10. \<open>set_card_due_date(card_id, d)\<close> is the same computation as
  \<open>update_card(card_id, due=d)\<close> with every other optional argument left out, for every
  string \<open>d\<close>: each is one PUT to \<open>/cards/{card_id}\<close> whose parameters are \<open>due = d\<close> and
  the credentials.
\<close>

theorem set_due_date_is_update_card:
  "client_set_card_due_date self card_id d = client_update_card self card_id None None None (Some d) None
   \<and> issued (client_set_card_due_date self card_id d) w =
       [\<lparr>req_method = ''PUT'', req_url = BASE_URL @ ''/cards/'' @ card_id,
         req_params = [(''due'', VStr d), (''key'', VStr (api_key self)), (''token'', VStr (api_token self))],
         req_json = None, req_files = []\<rparr>]
   \<and> issued (client_update_card self card_id None None None (Some d) None) w =
       [\<lparr>req_method = ''PUT'', req_url = BASE_URL @ ''/cards/'' @ card_id,
         req_params = [(''due'', VStr d), (''key'', VStr (api_key self)), (''token'', VStr (api_token self))],
         req_json = None, req_files = []\<rparr>]"
  by (simp add: client_set_card_due_date_def client_update_card_def shaping_defs issued_request add_auth_def)

text \<open>
  C4. \<open>clear_card_due_date\<close> makes one PUT to \<open>/cards/{card_id}\<close> whose parameters bind
  \<open>due\<close> to an explicit null; \<open>update_card\<close> with \<open>due\<close> omitted makes one PUT to the
  same path whose parameters have no \<open>due\<close> key, whatever its other arguments. The two
  requests differ.
\<close>

theorem clear_due_date_differs_from_omitted_due:
  "issued (client_clear_card_due_date self card_id) w =
       [\<lparr>req_method = ''PUT'', req_url = BASE_URL @ ''/cards/'' @ card_id,
         req_params = [(''due'', VNone), (''key'', VStr (api_key self)), (''token'', VStr (api_token self))],
         req_json = None, req_files = []\<rparr>]
   \<and> map req_method (issued (client_update_card self card_id name desc list_id None due_complete) w)
       = [''PUT'']
   \<and> map req_url (issued (client_update_card self card_id name desc list_id None due_complete) w)
       = [BASE_URL @ ''/cards/'' @ card_id]
   \<and> map (\<lambda>r. ''due'' \<in> set (dict_keys (req_params r)))
         (issued (client_update_card self card_id name desc list_id None due_complete) w) = [False]
   \<and> map (\<lambda>r. map_of (req_params r) ''due'') (issued (client_clear_card_due_date self card_id) w)
       = [Some VNone]
   \<and> issued (client_clear_card_due_date self card_id) w
       \<noteq> issued (client_update_card self card_id name desc list_id None due_complete) w"
proof -
  define ps where "ps = omit_if_empty ''name'' name @ omit_if_empty ''desc'' desc
              @ omit_if_empty ''idList'' list_id @ omit_if_absent ''due'' (map_option VStr None)
              @ omit_if_absent ''dueComplete'' (map_option VBool due_complete)"
  have upd: "issued (client_update_card self card_id name desc list_id None due_complete) w =
       [\<lparr>req_method = ''PUT'', req_url = BASE_URL @ ''/cards/'' @ card_id,
         req_params = add_auth self (Some ps), req_json = None, req_files = []\<rparr>]"
    by (simp add: update_card_shape issued_request ps_def)
  have clear: "issued (client_clear_card_due_date self card_id) w =
       [\<lparr>req_method = ''PUT'', req_url = BASE_URL @ ''/cards/'' @ card_id,
         req_params = [(''due'', VNone), (''key'', VStr (api_key self)), (''token'', VStr (api_token self))],
         req_json = None, req_files = []\<rparr>]"
    by (simp add: client_clear_card_due_date_def issued_request add_auth_def)
  have nodue: "map_of (add_auth self (Some ps)) ''due'' = None"
    by (simp add: ps_def map_of_add_auth omit_if_empty_def omit_if_absent_def split: option.splits)
  have keys: "''due'' \<notin> set (dict_keys (add_auth self (Some ps)))"
    using nodue by (simp add: dict_keys_def map_of_eq_None_iff)
  have ne: "[(''due'', VNone), (''key'', VStr (api_key self)), (''token'', VStr (api_token self))]
              \<noteq> add_auth self (Some ps)"
  proof
    assume "[(''due'', VNone), (''key'', VStr (api_key self)), (''token'', VStr (api_token self))]
              = add_auth self (Some ps)"
    from this [symmetric] show False using keys by (simp add: dict_keys_def)
  qed
  show ?thesis
    using keys ne by (simp add: upd clear)
qed

text \<open>
  C6, as the claim states it, fails: \<open>update_label\<close> called with the empty string as the
  new name sends \<open>name\<close> with an empty value, and so does \<open>update_card\<close> with an empty
  \<open>due\<close>.
\<close>

theorem update_label_sends_empty_name:
  "issued (client_update_label sample_client ''L1'' (Some '''') None) (answering (ok_json (VDict [])))
     = [\<lparr>req_method = ''PUT'', req_url = ''https://api.trello.com/1/labels/L1'',
         req_params = [(''name'', VStr ''''), (''key'', VStr ''K''), (''token'', VStr ''T'')],
         req_json = None, req_files = []\<rparr>]
   \<and> issued (client_update_card sample_client ''c1'' None None None (Some '''') None)
        (answering (ok_json (VDict [])))
     = [\<lparr>req_method = ''PUT'', req_url = ''https://api.trello.com/1/cards/c1'',
         req_params = [(''due'', VStr ''''), (''key'', VStr ''K''), (''token'', VStr ''T'')],
         req_json = None, req_files = []\<rparr>]"
  by (simp add: client_update_label_def client_update_card_def shaping_defs issued_request
        add_auth_def sample_client_def BASE_URL_def)

text \<open>
  C6, amended. Every client method with optional inputs makes exactly the request below.
  An input that is absent is never sent. An input that is the empty string is left out
  where the method tests \<open>if v:\<close> (\<open>omit_if_empty\<close>), and is sent with its empty value
  where the method tests \<open>if v is not None:\<close> (\<open>omit_if_absent\<close>): the \<open>due\<close> of
  \<open>update_card\<close>, the \<open>color\<close> of \<open>create_label\<close>, the \<open>name\<close> and \<open>color\<close> of
  \<open>update_label\<close>. The boolean inputs are sent whenever they are given, and
  \<open>clear_card_due_date\<close> sends \<open>due\<close> with an explicit null. A method left with no
  parameter of its own sends the credentials alone.
\<close>

theorem optional_inputs_shaping:
  "client_create_board self name desc =
     request self ''POST'' ''/boards/'' (Some ([(''name'', VStr name)] @ omit_if_empty ''desc'' desc)) None
   \<and> client_create_list self board_id name pos =
     request self ''POST'' (''/boards/'' @ board_id @ ''/lists'')
       (Some ([(''name'', VStr name)] @ omit_if_empty ''pos'' pos)) None
   \<and> client_create_card self list_id name desc pos due =
     request self ''POST'' ''/cards''
       (Some ([(''idList'', VStr list_id), (''name'', VStr name)] @ omit_if_empty ''desc'' desc
              @ omit_if_empty ''pos'' pos @ omit_if_empty ''due'' due)) None
   \<and> client_update_card self card_id uname desc ulist due due_complete =
     request self ''PUT'' (''/cards/'' @ card_id)
       (Some (omit_if_empty ''name'' uname @ omit_if_empty ''desc'' desc
              @ omit_if_empty ''idList'' ulist @ omit_if_absent ''due'' (map_option VStr due)
              @ omit_if_absent ''dueComplete'' (map_option VBool due_complete))) None
   \<and> client_move_card self card_id list_id pos =
     request self ''PUT'' (''/cards/'' @ card_id)
       (Some ([(''idList'', VStr list_id)] @ omit_if_empty ''pos'' pos)) None
   \<and> client_create_checklist self card_id name pos =
     request self ''POST'' ''/checklists''
       (Some ([(''idCard'', VStr card_id)] @ omit_if_empty ''name'' (Some name)
              @ omit_if_empty ''pos'' pos)) None
   \<and> client_update_checklist self checklist_id uname pos =
     request self ''PUT'' (''/checklists/'' @ checklist_id)
       (Some (omit_if_empty ''name'' uname @ omit_if_empty ''pos'' pos)) None
   \<and> client_add_checklist_item self checklist_id name checked pos =
     request self ''POST'' (''/checklists/'' @ checklist_id @ ''/checkItems'')
       (Some ([(''name'', VStr name)]
              @ omit_if_absent ''checked'' (map_option (\<lambda>b. VStr (str_lower_bool b)) checked)
              @ omit_if_empty ''pos'' pos)) None
   \<and> client_update_checklist_item self card_id checklist_item_id uname state pos =
     request self ''PUT'' (''/cards/'' @ card_id @ ''/checkItem/'' @ checklist_item_id)
       (Some (omit_if_empty ''name'' uname @ omit_if_empty ''state'' state
              @ omit_if_empty ''pos'' pos)) None
   \<and> client_create_label self board_id name color =
     request self ''POST'' ''/labels''
       (Some ([(''idBoard'', VStr board_id), (''name'', VStr name)]
              @ omit_if_absent ''color'' (map_option VStr color))) None
   \<and> client_update_label self label_id uname color =
     request self ''PUT'' (''/labels/'' @ label_id)
       (Some (omit_if_absent ''name'' (map_option VStr uname)
              @ omit_if_absent ''color'' (map_option VStr color))) None
   \<and> client_add_attachment_url self card_id url uname =
     request self ''POST'' (''/cards/'' @ card_id @ ''/attachments'')
       (Some ([(''url'', VStr url)] @ omit_if_empty ''name'' uname)) None
   \<and> client_clear_card_due_date self card_id =
     request self ''PUT'' (''/cards/'' @ card_id) (Some [(''due'', VNone)]) None
   \<and> omit_if_empty k None = [] \<and> omit_if_empty k (Some []) = []
   \<and> omit_if_absent k None = [] \<and> omit_if_absent k (Some (VStr [])) = [(k, VStr [])]
   \<and> add_auth self (Some []) = add_auth self None"
  by (simp add: create_board_shape create_list_shape create_card_shape update_card_shape
        move_card_shape create_checklist_shape update_checklist_shape add_checklist_item_shape
        update_checklist_item_shape create_label_shape update_label_shape add_attachment_url_shape
        client_clear_card_due_date_def omit_if_empty_def omit_if_absent_def add_auth_def)

section \<open>Properties of the file transfers\<close>

lemma resolve_filename_dict: "resolve_filename (VDict att) = Inr (preferred_filename att)"
  by (simp add: resolve_filename_def preferred_filename_def field_def split: option.splits)

text \<open>
  C7. When the metadata request returns a JSON object, the download request is answered
  with a 2xx status and the output file can be written, \<open>download_attachment\<close> makes two
  requests with the credentials, first the one for the metadata, then a GET to
  \<open>/cards/{card_id}/attachments/{attachment_id}/download/{filename}\<close>, where the file name
  is the \<open>fileName\<close> field if it has a value, else the \<open>name\<close> field if it has one, else
  \<open>download\<close>; it stores the body of the response at the output path; and it returns the
  number of bytes stored as \<open>size\<close>, the file name as \<open>name\<close> and the output path as
  \<open>path\<close>.
\<close>

theorem download_attachment_success:
  assumes meta: "client_get_attachment self card_id attachment_id w = (Inr (VDict att), w')"
      and dl: "net w' (sent w')
                 \<lparr>req_method = ''GET'',
                  req_url = BASE_URL @ ''/cards/'' @ card_id @ ''/attachments/'' @ attachment_id
                              @ ''/download/'' @ py_str rp (preferred_filename att),
                  req_params = add_auth self None, req_json = None, req_files = []\<rparr>
               = Responded resp"
      and ok: "is_success resp"
      and wr: "write_fault w' output_path = None"
  shows "client_download_attachment rp self card_id attachment_id output_path w =
           (Inr (VDict [(''success'', VBool True),
                        (''path'', VStr output_path),
                        (''size'', VInt (int (length (content resp)))),
                        (''name'', preferred_filename att),
                        (''attachment_id'', VStr attachment_id)]),
            w'\<lparr>sent := sent w' @
                    [\<lparr>req_method = ''GET'',
                      req_url = BASE_URL @ ''/cards/'' @ card_id @ ''/attachments/'' @ attachment_id
                                  @ ''/download/'' @ py_str rp (preferred_filename att),
                      req_params = add_auth self None, req_json = None, req_files = []\<rparr>],
                files := (files w')(output_path := Some (content resp))\<rparr>)
         \<and> issued (client_download_attachment rp self card_id attachment_id output_path) w =
           [\<lparr>req_method = ''GET'',
             req_url = BASE_URL @ ''/cards/'' @ card_id @ ''/attachments/'' @ attachment_id,
             req_params = add_auth self None, req_json = None, req_files = []\<rparr>,
            \<lparr>req_method = ''GET'',
             req_url = BASE_URL @ ''/cards/'' @ card_id @ ''/attachments/'' @ attachment_id
                         @ ''/download/'' @ py_str rp (preferred_filename att),
             req_params = add_auth self None, req_json = None, req_files = []\<rparr>]
         \<and> list_all (carries_credentials self)
              (issued (client_download_attachment rp self card_id attachment_id output_path) w)"
proof -
  have body: "download_to_file rp self card_id attachment_id output_path (preferred_filename att) w' =
           (Inr (VDict [(''success'', VBool True),
                        (''path'', VStr output_path),
                        (''size'', VInt (int (length (content resp)))),
                        (''name'', preferred_filename att),
                        (''attachment_id'', VStr attachment_id)]),
            w'\<lparr>sent := sent w' @
                    [\<lparr>req_method = ''GET'',
                      req_url = BASE_URL @ ''/cards/'' @ card_id @ ''/attachments/'' @ attachment_id
                                  @ ''/download/'' @ py_str rp (preferred_filename att),
                      req_params = add_auth self None, req_json = None, req_files = []\<rparr>],
                files := (files w')(output_path := Some (content resp))\<rparr>)"
    using dl ok wr by (simp add: download_to_file_def transmit_def Let_def)
  have run: "client_download_attachment rp self card_id attachment_id output_path w =
      download_to_file rp self card_id attachment_id output_path (preferred_filename att) w'"
    by (simp add: client_download_attachment_def bindM_def meta liftE_def resolve_filename_dict)
  have iss: "issued (client_download_attachment rp self card_id attachment_id output_path) w =
           [\<lparr>req_method = ''GET'',
             req_url = BASE_URL @ ''/cards/'' @ card_id @ ''/attachments/'' @ attachment_id,
             req_params = add_auth self None, req_json = None, req_files = []\<rparr>,
            \<lparr>req_method = ''GET'',
             req_url = BASE_URL @ ''/cards/'' @ card_id @ ''/attachments/'' @ attachment_id
                         @ ''/download/'' @ py_str rp (preferred_filename att),
             req_params = add_auth self None, req_json = None, req_files = []\<rparr>]"
    by (simp add: issued_def sent_download meta resolve_filename_dict)
  show ?thesis
    using run body iss by (simp add: carries_credentials_def map_of_add_auth)
qed

theorem download_attachment_success_witness:
  "fst (client_download_attachment (\<lambda>v. []) sample_client ''c1'' ''a1'' ''/tmp/out'' attachment_world)
     = Inr (VDict [(''success'', VBool True), (''path'', VStr ''/tmp/out''), (''size'', VInt 5),
                   (''name'', VStr ''notes.txt''), (''attachment_id'', VStr ''a1'')])
   \<and> files (snd (client_download_attachment (\<lambda>v. []) sample_client ''c1'' ''a1'' ''/tmp/out''
                    attachment_world)) ''/tmp/out'' = Some ''hello''
   \<and> map req_url (issued (client_download_attachment (\<lambda>v. []) sample_client ''c1'' ''a1'' ''/tmp/out'')
                     attachment_world)
     = [''https://api.trello.com/1/cards/c1/attachments/a1'',
        ''https://api.trello.com/1/cards/c1/attachments/a1/download/notes.txt'']"
  using download_attachment_success [where self = sample_client and card_id = "''c1''"
      and attachment_id = "''a1''" and w = attachment_world and rp = "\<lambda>v. []"
      and att = "[(''id'', VStr ''a1''), (''name'', VStr ''notes''), (''fileName'', VStr ''notes.txt'')]"
      and w' = "attachment_world\<lparr>sent :=
         [\<lparr>req_method = ''GET'', req_url = ''https://api.trello.com/1/cards/c1/attachments/a1'',
           req_params = [(''key'', VStr ''K''), (''token'', VStr ''T'')],
           req_json = None, req_files = []\<rparr>]\<rparr>"
      and resp = "\<lparr>status_code = 200, content = ''hello'', decoded = Inl ''not JSON''\<rparr>"
      and output_path = "''/tmp/out''"]
  by (simp add: client_get_attachment_def request_def transmit_def Let_def attachment_world_def
        ok_json_def is_success_def add_auth_def sample_client_def BASE_URL_def
        preferred_filename_def field_def)

text \<open>
  C8. If the local file does not exist, \<open>add_attachment_file\<close> of the client raises
  \<open>FileNotFoundError\<close> with a message naming the path and makes no request (the world is
  unchanged), and the tool returns that message with the card id and the path. If the file
  exists and can be read, one multipart POST goes to the card's attachments, and the file
  part is named by the caller's name when one is given (a non-empty string) and by the
  base name of the path otherwise.
\<close>

theorem upload_checks_file_first:
  "(files w file_path = None \<longrightarrow>
      client_add_attachment_file self card_id file_path name w =
        (Inl (FileNotFoundError (''File not found: '' @ file_path)), w)
      \<and> issued (client_add_attachment_file self card_id file_path name) w = [])
   \<and> (files w file_path = None \<and> trello_client w = Some self \<longrightarrow>
      add_attachment_file card_id file_path name w =
        (VDict [(''error'', VStr (''File not found: '' @ file_path)), (''card_id'', VStr card_id),
                (''file_path'', VStr file_path)],
         w\<lparr>events := events w @ [Error (''File not found: '' @ file_path)]\<rparr>))
   \<and> (files w file_path = Some data \<and> read_fault w file_path = None \<longrightarrow>
      issued (client_add_attachment_file self card_id file_path name) w =
        [\<lparr>req_method = ''POST'', req_url = BASE_URL @ ''/cards/'' @ card_id @ ''/attachments'',
          req_params = add_auth self None, req_json = None,
          req_files = [(''file'',
             (case name of
                None \<Rightarrow> basename file_path
              | Some n \<Rightarrow> if n = [] then basename file_path else n), data)]\<rparr>])"
proof -
  have a: "files w file_path = None \<Longrightarrow>
      client_add_attachment_file self card_id file_path name w =
        (Inl (FileNotFoundError (''File not found: '' @ file_path)), w)"
    by (simp add: client_add_attachment_file_def)
  have b: "files w file_path = None \<Longrightarrow> trello_client w = Some self \<Longrightarrow>
      add_attachment_file card_id file_path name w =
        (VDict [(''error'', VStr (''File not found: '' @ file_path)), (''card_id'', VStr card_id),
                (''file_path'', VStr file_path)],
         w\<lparr>events := events w @ [Error (''File not found: '' @ file_path)]\<rparr>)"
    by (simp add: add_attachment_file_def guarded_def bindM_def get_client_def a fail_with_def)
  have c: "files w file_path = Some data \<Longrightarrow> read_fault w file_path = None \<Longrightarrow>
      issued (client_add_attachment_file self card_id file_path name) w =
        [\<lparr>req_method = ''POST'', req_url = BASE_URL @ ''/cards/'' @ card_id @ ''/attachments'',
          req_params = add_auth self None, req_json = None,
          req_files = [(''file'',
             (case name of
                None \<Rightarrow> basename file_path
              | Some n \<Rightarrow> if n = [] then basename file_path else n), data)]\<rparr>]"
    by (simp add: issued_def sent_upload split: option.splits)
  show ?thesis
    using a b c by (simp add: issued_def)
qed

theorem upload_checks_file_first_witness:
  "client_add_attachment_file sample_client ''c1'' ''/tmp/missing'' None (answering (ok_json (VDict [])))
     = (Inl (FileNotFoundError ''File not found: /tmp/missing''), answering (ok_json (VDict [])))
   \<and> fst (add_attachment_file ''c1'' ''/tmp/missing'' None (answering (ok_json (VDict []))))
     = VDict [(''error'', VStr ''File not found: /tmp/missing''), (''card_id'', VStr ''c1''),
              (''file_path'', VStr ''/tmp/missing'')]
   \<and> map req_files
        (issued (client_add_attachment_file sample_client ''c1'' ''/tmp/a.txt'' None)
           (with_file ''/tmp/a.txt'' ''hello'' (answering (ok_json (VDict [])))))
     = [[(''file'', ''a.txt'', ''hello'')]]
   \<and> map req_files
        (issued (client_add_attachment_file sample_client ''c1'' ''/tmp/a.txt'' (Some ''notes''))
           (with_file ''/tmp/a.txt'' ''hello'' (answering (ok_json (VDict [])))))
     = [[(''file'', ''notes'', ''hello'')]]"
  using
    upload_checks_file_first [where w = "answering (ok_json (VDict []))"
      and file_path = "''/tmp/missing''" and self = sample_client and card_id = "''c1''"
      and name = None]
    upload_checks_file_first [where w = "with_file ''/tmp/a.txt'' ''hello'' (answering (ok_json (VDict [])))"
      and file_path = "''/tmp/a.txt''" and self = sample_client and card_id = "''c1''"
      and name = None and data = "''hello''"]
    upload_checks_file_first [where w = "with_file ''/tmp/a.txt'' ''hello'' (answering (ok_json (VDict [])))"
      and file_path = "''/tmp/a.txt''" and self = sample_client and card_id = "''c1''"
      and name = "Some ''notes''" and data = "''hello''"]
  by (simp add: answering_def with_file_def basename_def)

section \<open>Properties of the tool facade\<close>

lemmas tool_defs =
  list_boards_def get_board_def create_board_def get_board_lists_def create_list_def
  archive_list_def list_cards_def get_card_def create_card_def update_card_def delete_card_def
  move_card_def get_card_checklists_def create_checklist_def get_checklist_def
  update_checklist_def delete_checklist_def get_checklist_items_def add_checklist_item_def
  update_checklist_item_def delete_checklist_item_def get_board_labels_def create_label_def
  update_label_def delete_label_def get_card_labels_def add_label_to_card_def
  remove_label_from_card_def set_card_labels_def set_card_due_date_def
  mark_due_date_complete_def clear_card_due_date_def get_card_attachments_def
  get_attachment_def add_attachment_url_def add_attachment_file_def download_attachment_def
  delete_attachment_def

lemmas run_defs = guarded_def bindM_def returnM_def liftE_def fail_with_def context_info_def Let_def

lemma board_tool_failure:
  assumes "get_client w = (Inr c, wa)" and "board_method c b wa = (Inl e, wb)"
  shows "fst (board_tool rp b w) =
           (if collection (Board b)
            then VList [VDict ((''error'', VStr (exn_str e)) # board_identifying b)]
            else VDict ((''error'', VStr (exn_str e)) # board_identifying b))"
  using assms by (cases b) (simp_all add: tool_defs run_defs collection_def)

lemma board_identifying_args:
  "set (board_identifying b) \<subseteq> set (board_args b)
   \<and> take 1 (board_identifying b) = take 1 (board_args b)"
  by (cases b) simp_all

lemma card_tool_failure:
  assumes "get_client w = (Inr c, wa)" and "card_method c b wa = (Inl e, wb)"
  shows "fst (card_tool rp b w) =
           (if collection (Card b)
            then VList [VDict ((''error'', VStr (exn_str e)) # card_identifying b)]
            else VDict ((''error'', VStr (exn_str e)) # card_identifying b))"
  using assms by (cases b) (simp_all add: tool_defs run_defs collection_def)

lemma card_identifying_args:
  "set (card_identifying b) \<subseteq> set (card_args b)
   \<and> take 1 (card_identifying b) = take 1 (card_args b)"
  by (cases b) simp_all

lemma checklist_tool_failure:
  assumes "get_client w = (Inr c, wa)" and "checklist_method c b wa = (Inl e, wb)"
  shows "fst (checklist_tool rp b w) =
           (if collection (Checklist b)
            then VList [VDict ((''error'', VStr (exn_str e)) # checklist_identifying b)]
            else VDict ((''error'', VStr (exn_str e)) # checklist_identifying b))"
  using assms by (cases b) (simp_all add: tool_defs run_defs collection_def)

lemma checklist_identifying_args:
  "set (checklist_identifying b) \<subseteq> set (checklist_args b)
   \<and> take 1 (checklist_identifying b) = take 1 (checklist_args b)"
  by (cases b) simp_all

lemma label_tool_failure:
  assumes "get_client w = (Inr c, wa)" and "label_method c b wa = (Inl e, wb)"
  shows "fst (label_tool rp b w) =
           (if collection (Label b)
            then VList [VDict ((''error'', VStr (exn_str e)) # label_identifying b)]
            else VDict ((''error'', VStr (exn_str e)) # label_identifying b))"
  using assms by (cases b) (simp_all add: tool_defs run_defs collection_def)

lemma label_identifying_args:
  "set (label_identifying b) \<subseteq> set (label_args b)
   \<and> take 1 (label_identifying b) = take 1 (label_args b)"
  by (cases b) simp_all

lemma due_tool_failure:
  assumes "get_client w = (Inr c, wa)" and "due_method c b wa = (Inl e, wb)"
  shows "fst (due_tool rp b w) =
           (if collection (Due b)
            then VList [VDict ((''error'', VStr (exn_str e)) # due_identifying b)]
            else VDict ((''error'', VStr (exn_str e)) # due_identifying b))"
  using assms by (cases b) (simp_all add: tool_defs run_defs collection_def)

lemma due_identifying_args:
  "set (due_identifying b) \<subseteq> set (due_args b)
   \<and> take 1 (due_identifying b) = take 1 (due_args b)"
  by (cases b) simp_all

lemma attachment_tool_failure:
  assumes "get_client w = (Inr c, wa)" and "attachment_method rp c b wa = (Inl e, wb)"
  shows "fst (attachment_tool rp b w) =
           (if collection (Attachment b)
            then VList [VDict ((''error'', VStr (exn_str e)) # attachment_identifying b)]
            else VDict ((''error'', VStr (exn_str e)) # attachment_identifying b))"
  using assms by (cases b) (simp_all add: tool_defs run_defs collection_def)

lemma attachment_identifying_args:
  "set (attachment_identifying b) \<subseteq> set (attachment_args b)
   \<and> take 1 (attachment_identifying b) = take 1 (attachment_args b)"
  by (cases b) simp_all

text \<open>
  C1. Whenever the client method behind a tool raises, whatever the exception, the tool
  returns a value instead: the dictionary that holds the text of the exception under
  \<open>error\<close>, followed by the identifying parameters of the invocation, which are
  listed tool by tool in \<open>identifying\<close> (\<open>card_id\<close> and \<open>attachment_id\<close> for
  \<open>delete_attachment\<close>, for one; none for \<open>list_boards\<close>). For the eight
  collection-returning tools that dictionary is the single element of a list. The
  identifying parameters are arguments of the invocation under their parameter names, and
  the first argument is always the first of them.
\<close>

theorem tool_failure_is_structured:
  assumes "get_client w = (Inr c, wa)" and "invoke_method rp c call wa = (Inl e, wb)"
  shows "fst (invoke_tool rp call w) =
           (if collection call
            then VList [VDict ((''error'', VStr (exn_str e)) # identifying call)]
            else VDict ((''error'', VStr (exn_str e)) # identifying call))
         \<and> set (identifying call) \<subseteq> set (call_args call)
         \<and> take 1 (identifying call) = take 1 (call_args call)"
proof (cases call)
  case (Board b)
  with assms show ?thesis
    using board_tool_failure [of w c wa b e wb rp] board_identifying_args [of b] by simp
next
  case (Card b)
  with assms show ?thesis
    using card_tool_failure [of w c wa b e wb rp] card_identifying_args [of b] by simp
next
  case (Checklist b)
  with assms show ?thesis
    using checklist_tool_failure [of w c wa b e wb rp] checklist_identifying_args [of b] by simp
next
  case (Label b)
  with assms show ?thesis
    using label_tool_failure [of w c wa b e wb rp] label_identifying_args [of b] by simp
next
  case (Due b)
  with assms show ?thesis
    using due_tool_failure [of w c wa b e wb rp] due_identifying_args [of b] by simp
next
  case (Attachment b)
  with assms show ?thesis
    using attachment_tool_failure [of w c wa rp b e wb] attachment_identifying_args [of b] by simp
qed

theorem tool_failure_is_structured_witness:
  "fst (invoke_tool (\<lambda>v. []) (Board (GetBoard ''b1'')) (answering (status_only 404)))
     = VDict [(''error'', VStr ''Resource not found: /boards/b1''), (''board_id'', VStr ''b1'')]
   \<and> fst (invoke_tool (\<lambda>v. []) (Card (ListCards ''l1'')) (answering (RequestError ''timed out'')))
     = VList [VDict [(''error'', VStr ''Network error: timed out''), (''list_id'', VStr ''l1'')]]
   \<and> fst (invoke_tool (\<lambda>v. []) (Attachment (DeleteAttachment ''c1'' ''a1''))
            (answering (status_only 404)))
     = VDict [(''error'', VStr ''Resource not found: /cards/c1/attachments/a1''),
              (''card_id'', VStr ''c1''), (''attachment_id'', VStr ''a1'')]"
  using
    tool_failure_is_structured [where w = "answering (status_only 404)" and c = sample_client
      and wa = "answering (status_only 404)" and rp = "\<lambda>v. []"
      and call = "Attachment (DeleteAttachment ''c1'' ''a1'')"
      and e = "Exception ''Resource not found: /cards/c1/attachments/a1''"
      and wb = "snd (client_delete_attachment sample_client ''c1'' ''a1''
                       (answering (status_only 404)))"]
    tool_failure_is_structured [where w = "answering (status_only 404)" and c = sample_client
      and wa = "answering (status_only 404)" and rp = "\<lambda>v. []" and call = "Board (GetBoard ''b1'')"
      and e = "Exception ''Resource not found: /boards/b1''"
      and wb = "snd (client_get_board sample_client ''b1'' (answering (status_only 404)))"]
    tool_failure_is_structured [where w = "answering (RequestError ''timed out'')" and c = sample_client
      and wa = "answering (RequestError ''timed out'')" and rp = "\<lambda>v. []"
      and call = "Card (ListCards ''l1'')"
      and e = "Exception ''Network error: timed out''"
      and wb = "snd (client_list_cards sample_client ''l1'' (answering (RequestError ''timed out'')))"]
  by (simp add: get_client_def answering_def status_only_def client_get_board_def
        client_list_cards_def client_delete_attachment_def request_def transmit_def
        is_success_def collection_def get_board_def list_cards_def delete_attachment_def run_defs)

lemma board_tool_success:
  assumes "get_client w = (Inr c, wa)" and "board_method c b wa = (Inr v, wb)"
      and "inspectable (Board b) v"
  shows "fst (board_tool rp b w) = v"
  using assms
  by (cases b; cases v) (simp_all add: tool_defs run_defs inspectable_def collection_def reads_name_def)

lemma card_tool_success:
  assumes "get_client w = (Inr c, wa)" and "card_method c b wa = (Inr v, wb)"
      and "inspectable (Card b) v"
  shows "fst (card_tool rp b w) =
           (case b of
              DeleteCard card_id \<Rightarrow>
                VDict [(''success'', VBool True), (''card_id'', VStr card_id), (''result'', v)]
            | _ \<Rightarrow> v)"
  using assms
  by (cases b; cases v) (simp_all add: tool_defs run_defs inspectable_def collection_def reads_name_def)

lemma checklist_tool_success:
  assumes "get_client w = (Inr c, wa)" and "checklist_method c b wa = (Inr v, wb)"
      and "inspectable (Checklist b) v"
  shows "fst (checklist_tool rp b w) = v"
  using assms
  by (cases b; cases v) (simp_all add: tool_defs run_defs inspectable_def collection_def reads_name_def)

lemma label_tool_success:
  assumes "get_client w = (Inr c, wa)" and "label_method c b wa = (Inr v, wb)"
      and "inspectable (Label b) v"
  shows "fst (label_tool rp b w) = v"
  using assms
  by (cases b; cases v) (simp_all add: tool_defs run_defs inspectable_def collection_def reads_name_def)

lemma due_tool_success:
  assumes "get_client w = (Inr c, wa)" and "due_method c b wa = (Inr v, wb)"
  shows "fst (due_tool rp b w) = v"
  using assms
  by (cases b) (simp_all add: tool_defs run_defs)

lemma attachment_tool_success:
  assumes "get_client w = (Inr c, wa)" and "attachment_method rp c b wa = (Inr v, wb)"
      and "inspectable (Attachment b) v"
  shows "fst (attachment_tool rp b w) =
           (case b of
              DeleteAttachment card_id attachment_id \<Rightarrow>
                VDict [(''success'', VBool True), (''card_id'', VStr card_id),
                       (''attachment_id'', VStr attachment_id), (''result'', v)]
            | _ \<Rightarrow> v)"
  using assms
  by (cases b; cases v) (simp_all add: tool_defs run_defs inspectable_def collection_def reads_name_def)

text \<open>
  C5, as the claim states it, fails: when the client's \<open>delete_card\<close> succeeds with a
  result, the tool \<open>delete_card\<close> returns a dictionary that holds the result under
  \<open>result\<close>, not the result itself.
\<close>

theorem delete_card_wraps_result:
  "fst (client_delete_card sample_client ''c1'' (answering (ok_json (VDict [(''limits'', VDict [])]))))
     = Inr (VDict [(''limits'', VDict [])])
   \<and> fst (delete_card ''c1'' (answering (ok_json (VDict [(''limits'', VDict [])]))))
     = VDict [(''success'', VBool True), (''card_id'', VStr ''c1''),
              (''result'', VDict [(''limits'', VDict [])])]
   \<and> fst (delete_card ''c1'' (answering (ok_json (VDict [(''limits'', VDict [])]))))
     \<noteq> VDict [(''limits'', VDict [])]"
  by (simp add: delete_card_def client_delete_card_def request_def transmit_def run_defs
        get_client_def answering_def ok_json_def is_success_def)

text \<open>
  C5, amended. When the client method behind a tool succeeds with a result the tool can
  inspect (a JSON object for the four tools that read its \<open>name\<close>, a sized value for the
  eight tools that count it), every tool but two returns that result unchanged;
  \<open>delete_card\<close> and \<open>delete_attachment\<close> return \<open>success\<close>, the identifiers and the
  result under \<open>result\<close>.
\<close>

theorem tool_success_returns_result:
  assumes "get_client w = (Inr c, wa)" and "invoke_method rp c call wa = (Inr v, wb)"
      and "inspectable call v"
  shows "fst (invoke_tool rp call w) =
           (case call of
              Card (DeleteCard card_id) \<Rightarrow>
                VDict [(''success'', VBool True), (''card_id'', VStr card_id), (''result'', v)]
            | Attachment (DeleteAttachment card_id attachment_id) \<Rightarrow>
                VDict [(''success'', VBool True), (''card_id'', VStr card_id),
                       (''attachment_id'', VStr attachment_id), (''result'', v)]
            | _ \<Rightarrow> v)"
proof (cases call)
  case (Board b)
  with assms show ?thesis using board_tool_success [of w c wa b v wb rp] by simp
next
  case (Card b)
  with assms show ?thesis using card_tool_success [of w c wa b v wb rp]
    by (simp split: card_call.splits)
next
  case (Checklist b)
  with assms show ?thesis using checklist_tool_success [of w c wa b v wb rp] by simp
next
  case (Label b)
  with assms show ?thesis using label_tool_success [of w c wa b v wb rp] by simp
next
  case (Due b)
  with assms show ?thesis using due_tool_success [of w c wa b v wb rp] by simp
next
  case (Attachment b)
  with assms show ?thesis using attachment_tool_success [of w c wa rp b v wb]
    by (simp split: attachment_call.splits)
qed

theorem tool_success_returns_result_witness:
  "fst (invoke_tool (\<lambda>v. []) (Board (GetBoard ''b1''))
          (answering (ok_json (VDict [(''name'', VStr ''Roadmap'')]))))
     = VDict [(''name'', VStr ''Roadmap'')]
   \<and> fst (invoke_tool (\<lambda>v. []) (Card (DeleteCard ''c1'')) (answering (ok_json (VDict []))))
     = VDict [(''success'', VBool True), (''card_id'', VStr ''c1''), (''result'', VDict [])]"
  using
    tool_success_returns_result [where w = "answering (ok_json (VDict [(''name'', VStr ''Roadmap'')]))"
      and c = sample_client and wa = "answering (ok_json (VDict [(''name'', VStr ''Roadmap'')]))"
      and rp = "\<lambda>v. []" and call = "Board (GetBoard ''b1'')"
      and v = "VDict [(''name'', VStr ''Roadmap'')]"
      and wb = "snd (client_get_board sample_client ''b1''
                       (answering (ok_json (VDict [(''name'', VStr ''Roadmap'')]))))"]
    tool_success_returns_result [where w = "answering (ok_json (VDict []))"
      and c = sample_client and wa = "answering (ok_json (VDict []))"
      and rp = "\<lambda>v. []" and call = "Card (DeleteCard ''c1'')" and v = "VDict []"
      and wb = "snd (client_delete_card sample_client ''c1'' (answering (ok_json (VDict []))))"]
  by (simp add: get_client_def answering_def ok_json_def client_get_board_def client_delete_card_def
        request_def transmit_def Let_def is_success_def inspectable_def reads_name_def collection_def)

section \<open>Properties of the composite views\<close>


lemma field_as_field_or: "field d k = field_or d k VNone"
  by (simp add: field_def field_or_def)










lemma board_view_failure:
  assumes "get_client w = (Inr c, wa)"
  shows "(client_get_board c board_id wa = (Inl e, wb) \<longrightarrow>
            get_board_resource rp board_id w =
              (''Error loading board '' @ board_id @ '': '' @ exn_str e, wb))
       \<and> (client_get_board c board_id wa = (Inr v, wb)
            \<and> client_get_board_lists c board_id wb = (Inl e, wc) \<longrightarrow>
            get_board_resource rp board_id w =
              (''Error loading board '' @ board_id @ '': '' @ exn_str e, wc))"
  using assms by (simp add: get_board_resource_def board_view_def guarded_def bindM_def)





end
